theory Spec2Isabelle
  imports Complex_Main "HOL-Library.Log_Nat"
begin

section \<open>Data model\<close>

text \<open>
  The embedding follows \<^verbatim>\<open>backend/app/models\<close>, \<^verbatim>\<open>backend/app/schemas\<close> and
  \<^verbatim>\<open>backend/app/api\<close>. Conventions:
  \<^item> a UUID primary key is a natural number;
  \<^item> a naive \<^verbatim>\<open>datetime\<close> is an integer count of microseconds since 0001-01-01 00:00:00
    (the resolution of Python's \<^verbatim>\<open>datetime\<close>); a \<^verbatim>\<open>timedelta\<close> is a difference of such counts;
  \<^item> a \<^verbatim>\<open>Decimal\<close> / \<^verbatim>\<open>Numeric(12, 2)\<close> amount is a rational number; sums and differences of
    amounts are exact in the source as well, and amounts are taken as submitted (the store's
    rounding to two decimal places is not applied);
  \<^item> a Python \<^verbatim>\<open>float\<close> is the rational number it denotes. The goal-progress analytics
    (\<^verbatim>\<open>get_goal_progress_analytics\<close>), where the on-track decision compares two quotients, are
    modelled in double precision: every conversion and operation rounds as IEEE 754 binary64
    does. In \<^verbatim>\<open>get_savings_overview\<close> the conversions to \<^verbatim>\<open>float\<close> are kept exact;
  \<^item> every clock read (\<^verbatim>\<open>datetime.utcnow()\<close>, \<^verbatim>\<open>datetime.now()\<close>) of one call is a
    parameter of the modelled function, and all reads within one call see the same instant;
  \<^item> a name that a module uses without importing or defining it raises \<^verbatim>\<open>NameError\<close> where
    it is evaluated (\<^verbatim>\<open>Transaction\<close> in \<^verbatim>\<open>api/goals.py\<close>, line 183);
  \<^item> the audit log and the notification table are not part of the modelled state.
\<close>

type_synonym uuid = nat
type_synonym datetime = int
type_synonym decimal = rat

datatype TransactionType = DEPOSIT | WITHDRAWAL | TRANSFER

datatype TransactionMethod = MPESA | BANK | CASH | CARD

datatype TransactionStatus = T_PENDING | T_COMPLETED | T_FAILED | T_CANCELLED

datatype GoalCategory = EDUCATION | VACATION | EMERGENCY | TOYS | ELECTRONICS | OTHER

datatype GoalPriority = LOW | MEDIUM | HIGH

datatype GoalStatus = G_ACTIVE | G_COMPLETED | G_PAUSED | G_CANCELLED

text \<open>\<^verbatim>\<open>models/goal.py\<close>, class \<^verbatim>\<open>Goal\<close>. Columns that the code can leave or set to NULL are options.\<close>

record Goal =
  g_id :: uuid
  g_user_id :: uuid
  g_title :: string
  g_description :: "string option"
  g_target_amount :: decimal
  g_current_amount :: decimal
  g_target_date :: datetime
  g_category :: GoalCategory
  g_priority :: "GoalPriority option"
  g_status :: "GoalStatus option"
  g_milestones :: "string option"
  g_auto_save_amount :: "decimal option"
  g_auto_save_frequency :: "string option"
  g_created_at :: datetime
  g_updated_at :: datetime
  g_completed_at :: "datetime option"

text \<open>\<^verbatim>\<open>models/transaction.py\<close>, class \<^verbatim>\<open>Transaction\<close>.\<close>

record Transaction =
  t_id :: uuid
  t_user_id :: uuid
  t_goal_id :: uuid
  t_amount :: decimal
  t_transaction_type :: TransactionType
  t_method :: TransactionMethod
  t_status :: TransactionStatus
  t_description :: "string option"
  t_reference_number :: "string option"
  t_mpesa_reference :: "string option"
  t_phone_number :: "string option"
  t_paybill_number :: "string option"
  t_account_number :: "string option"
  t_transaction_fee :: decimal
  t_created_at :: datetime
  t_processed_at :: "datetime option"


text \<open>\<^verbatim>\<open>models/goal.py\<close>, class \<^verbatim>\<open>GoalShare\<close>, and the columns of \<^verbatim>\<open>models/user.py\<close> that the goal and
  transaction endpoints read.\<close>

record GoalShare =
  s_id :: uuid
  s_goal_id :: uuid
  s_shared_with_user_id :: uuid
  s_permission_level :: string
  s_created_at :: datetime

record User =
  u_id :: uuid
  u_email :: string
  u_name :: string

datatype error =
    HTTP_404_NOT_FOUND string
  | HTTP_400_BAD_REQUEST string
  | ValueError string
  | TypeError
  | IntegrityError
  | ZeroDivisionError
  | OverflowError
  | NameError

text \<open>The tables that the goal and transaction code reads and writes, in insertion order.\<close>

record db =
  goals :: "Goal list"
  transactions :: "Transaction list"
  goal_shares :: "GoalShare list"
  users :: "User list"

text \<open>A background task queued with \<^verbatim>\<open>background_tasks.add_task\<close>.\<close>

datatype task =
    ProcessMpesaPayment uuid "string option" decimal
  | CheckMpesaPaymentStatus uuid "string option"

section \<open>Query helpers\<close>

text \<open>
  \<^verbatim>\<open>db.query(M).filter(...).first()\<close> is \<^const>\<open>find\<close> on the table. Assigning to attributes of the
  object that \<^verbatim>\<open>first()\<close> returned and committing rewrites that one row.
\<close>

fun delete_first :: "('a \<Rightarrow> bool) \<Rightarrow> 'a list \<Rightarrow> 'a list" where
  "delete_first P [] = []"
| "delete_first P (x # xs) = (if P x then xs else x # delete_first P xs)"

fun update_first :: "('a \<Rightarrow> bool) \<Rightarrow> ('a \<Rightarrow> 'a) \<Rightarrow> 'a list \<Rightarrow> 'a list" where
  "update_first P f [] = []"
| "update_first P f (x # xs) = (if P x then f x # xs else x # update_first P f xs)"

section \<open>Double-precision arithmetic of Python's \<^verbatim>\<open>float\<close>\<close>

text \<open>
  \<open>float_of x\<close> is the double nearest to \<open>x\<close>: \<open>x\<close> rounded to 53 significant bits, a tie
  going to the even significand (IEEE 754 binary64, round to nearest even). \<open>ilog2 x\<close> is
  the exponent of the leading bit of \<open>x\<close>. The exponent range is not limited: the amounts
  of \<^verbatim>\<open>Numeric(12, 2)\<close> columns and their quotients lie well inside the normal range of
  binary64, where this is the rounding of \<^verbatim>\<open>float(d)\<close> for a \<^verbatim>\<open>Decimal\<close> or an \<^verbatim>\<open>int\<close> and of
  every arithmetic operation on floats.
\<close>

definition round_half_even :: "rat \<Rightarrow> int" where
  "round_half_even x =
     (let f = \<lfloor>x\<rfloor>; r = x - of_int f
      in if r < 1 / 2 then f else if r > 1 / 2 then f + 1 else if even f then f else f + 1)"

definition ilog2 :: "rat \<Rightarrow> int" where
  "ilog2 x =
     (let (p, q) = quotient_of \<bar>x\<bar>; k = bitlen p - bitlen q
      in if 2 powi k \<le> \<bar>x\<bar> then k else k - 1)"

definition float_of :: "rat \<Rightarrow> rat" where
  "float_of x =
     (if x = 0 then 0
      else let e = ilog2 x - 52
           in of_int (round_half_even (x / 2 powi e)) * 2 powi e)"

text \<open>Division and multiplication of two floats: the exact result, rounded.\<close>

definition fdiv :: "rat \<Rightarrow> rat \<Rightarrow> rat" where
  "fdiv a b = float_of (a / b)"

definition fmul :: "rat \<Rightarrow> rat \<Rightarrow> rat" where
  "fmul a b = float_of (a * b)"

section \<open>Calendar arithmetic of Python's \<^verbatim>\<open>datetime\<close>\<close>

text \<open>
  The proleptic Gregorian calendar as \<^verbatim>\<open>datetime\<close> computes it: day ordinal 1 is
  0001-01-01. Only what the analytics code uses is modelled: the \<^verbatim>\<open>year\<close>, \<^verbatim>\<open>month\<close> and
  \<^verbatim>\<open>day\<close> attributes, \<^verbatim>\<open>replace(day=1)\<close>, \<^verbatim>\<open>timedelta(days=n)\<close> and \<^verbatim>\<open>timedelta.days\<close>.
\<close>

definition day_us :: int where
  "day_us = 86400000000"

definition is_leap :: "int \<Rightarrow> bool" where
  "is_leap year = (year mod 4 = 0 \<and> (year mod 100 \<noteq> 0 \<or> year mod 400 = 0))"

definition days_before_year :: "int \<Rightarrow> int" where
  "days_before_year year = (let y = year - 1 in y * 365 + y div 4 - y div 100 + y div 400)"

definition days_in_month :: "bool \<Rightarrow> int \<Rightarrow> int" where
  "days_in_month leap month =
     (if month = 2 \<and> leap then 29
      else [31, 28, 31, 30, 31, 30, 31, 31, 30, 31, 30, 31] ! nat (month - 1))"

definition days_before_month :: "bool \<Rightarrow> int \<Rightarrow> int" where
  "days_before_month leap month =
     [0, 31, 59, 90, 120, 151, 181, 212, 243, 273, 304, 334] ! nat (month - 1)
       + (if month > 2 \<and> leap then 1 else 0)"

definition ymd2ord :: "int \<Rightarrow> int \<Rightarrow> int \<Rightarrow> int" where
  "ymd2ord year month day =
     days_before_year year + days_before_month (is_leap year) month + day"

definition ord2ymd :: "int \<Rightarrow> int \<times> int \<times> int" where
  "ord2ymd ordinal =
     (let n = ordinal - 1;
          n400 = n div 146097; n = n mod 146097;
          n100 = n div 36524; n = n mod 36524;
          n4 = n div 1461; n = n mod 1461;
          n1 = n div 365; n = n mod 365;
          year = n400 * 400 + 1 + n100 * 100 + n4 * 4 + n1
      in if n1 = 4 \<or> n100 = 4 then (year - 1, 12, 31)
         else
           let leapyear = (n1 = 3 \<and> (n4 \<noteq> 24 \<or> n100 = 3));
               month = (n + 50) div 32;
               preceding = days_before_month leapyear month
           in if preceding > n
              then (year, month - 1,
                    n - (preceding - days_in_month leapyear (month - 1)) + 1)
              else (year, month, n - preceding + 1))"

definition mk_datetime :: "int \<Rightarrow> int \<Rightarrow> int \<Rightarrow> int \<Rightarrow> int \<Rightarrow> int \<Rightarrow> datetime" where
  "mk_datetime year month day hour minute second =
     (ymd2ord year month day - 1) * day_us + ((hour * 60 + minute) * 60 + second) * 1000000"

definition dt_year :: "datetime \<Rightarrow> int" where
  "dt_year t = fst (ord2ymd (t div day_us + 1))"

definition dt_month :: "datetime \<Rightarrow> int" where
  "dt_month t = fst (snd (ord2ymd (t div day_us + 1)))"

definition dt_day :: "datetime \<Rightarrow> int" where
  "dt_day t = snd (snd (ord2ymd (t div day_us + 1)))"

text \<open>\<^verbatim>\<open>t.replace(day=1)\<close>: the same year, month and time of day, on the first of the month.\<close>

definition replace_day1 :: "datetime \<Rightarrow> datetime" where
  "replace_day1 t = t - (dt_day t - 1) * day_us"

text \<open>\<^verbatim>\<open>timedelta(days=n)\<close> for an integer \<open>n\<close>, and the \<^verbatim>\<open>days\<close> attribute of a difference
  (the floor of the difference in days).\<close>

definition timedelta_days :: "int \<Rightarrow> int" where
  "timedelta_days n = n * day_us"

definition days_of :: "int \<Rightarrow> int" where
  "days_of delta = delta div day_us"

text \<open>\<^verbatim>\<open>t.strftime("%Y-%m")\<close>, kept as the pair of year and month that it prints.\<close>

definition strftime_Y_m :: "datetime \<Rightarrow> int \<times> int" where
  "strftime_Y_m t = (dt_year t, dt_month t)"

text \<open>The last representable instant, 9999-12-31 23:59:59.999999.\<close>

definition datetime_max :: datetime where
  "datetime_max = 3652059 * day_us - 1"

text \<open>
  \<^verbatim>\<open>timedelta(days=x)\<close> for a \<^verbatim>\<open>float\<close> \<open>x\<close>, in microseconds, as the constructor computes it:
  the whole days are converted exactly; the fractional part is multiplied by the
  microseconds of a day in double precision, the whole microseconds of that product are
  added, and what is left is rounded to the nearest microsecond, a half towards the even
  total. More than 999999999 days raise \<^verbatim>\<open>OverflowError\<close>. \<open>c_trunc\<close> and \<open>c_round\<close> are C's
  \<^verbatim>\<open>modf\<close> integer part and \<^verbatim>\<open>round\<close> (halves away from zero).
\<close>

definition c_trunc :: "rat \<Rightarrow> int" where
  "c_trunc x = (if x \<ge> 0 then \<lfloor>x\<rfloor> else \<lceil>x\<rceil>)"

definition c_round :: "rat \<Rightarrow> int" where
  "c_round x = (if x \<ge> 0 then \<lfloor>x + 1 / 2\<rfloor> else \<lceil>x - 1 / 2\<rceil>)"

definition timedelta_of_float_days :: "rat \<Rightarrow> error + int" where
  "timedelta_of_float_days dnum =
     (let intpart = c_trunc dnum;
          fracpart = dnum - of_int intpart;
          sum = intpart * day_us;
          us = (if fracpart = 0 then sum
                else
                  let dnum2 = float_of (of_int day_us * fracpart);
                      intpart2 = c_trunc dnum2;
                      leftover_us = dnum2 - of_int intpart2;
                      x = sum + intpart2
                  in if leftover_us = 0 then x
                     else
                       let whole_us = c_round leftover_us;
                           x_is_odd = x mod 2
                       in if \<bar>of_int whole_us - leftover_us\<bar> = 1 / 2
                          then x + (2 * c_round ((leftover_us + of_int x_is_odd) * (1 / 2))
                                      - x_is_odd)
                          else x + whole_us)
      in if us div day_us < - 999999999 \<or> us div day_us > 999999999 then Inl OverflowError
         else Inr us)"

text \<open>Adding a \<^verbatim>\<open>timedelta\<close> to a \<^verbatim>\<open>datetime\<close> raises \<^verbatim>\<open>OverflowError\<close> outside the years 1 to
  9999.\<close>

definition add_timedelta :: "datetime \<Rightarrow> int \<Rightarrow> error + datetime" where
  "add_timedelta t us =
     (if t + us < 0 \<or> t + us > datetime_max then Inl OverflowError else Inr (t + us))"

section \<open>Transactions API (\<^verbatim>\<open>api/transactions.py\<close>)\<close>

text \<open>\<^verbatim>\<open>schemas/transaction.py\<close>: the request bodies and their validators.\<close>

record TransactionCreate =
  tc_goal_id :: uuid
  tc_amount :: decimal
  tc_transaction_type :: TransactionType
  tc_method :: TransactionMethod
  tc_description :: "string option"
  tc_phone_number :: "string option"
  tc_paybill_number :: "string option"
  tc_account_number :: "string option"

definition validate_amount :: "decimal \<Rightarrow> error + decimal" where
  "validate_amount v = (if v \<le> 0 then Inl (ValueError ''Amount must be positive'') else Inr v)"

record MPesaPaymentRequest =
  mp_goal_id :: uuid
  mp_amount :: decimal
  mp_phone_number :: string
  mp_paybill_number :: string
  mp_account_number :: string

definition validate_phone_number :: "string \<Rightarrow> error + string" where
  "validate_phone_number v =
     (if \<not> (take 3 v = ''254'') \<or> length v \<noteq> 12
      then Inl (ValueError ''Invalid phone number format. Use 254XXXXXXXXX'')
      else Inr v)"

text \<open>
  \<^verbatim>\<open>create_transaction\<close>. \<open>new_id\<close> is the UUID drawn for the new row, \<open>utcnow\<close> the column
  default of \<^verbatim>\<open>created_at\<close>. The result is the new state, the stored row and the queued tasks.
\<close>

definition create_transaction ::
  "db \<Rightarrow> uuid \<Rightarrow> TransactionCreate \<Rightarrow> uuid \<Rightarrow> datetime \<Rightarrow> error + (db \<times> Transaction \<times> task list)" where
  "create_transaction d current_user transaction_data new_id utcnow =
     (case validate_amount (tc_amount transaction_data) of
        Inl e \<Rightarrow> Inl e
      | Inr _ \<Rightarrow>
     (case find (\<lambda>g. g_id g = tc_goal_id transaction_data \<and> g_user_id g = current_user) (goals d) of
        None \<Rightarrow> Inl (HTTP_404_NOT_FOUND ''Goal not found'')
      | Some goal \<Rightarrow>
          let transaction = \<lparr>
                t_id = new_id,
                t_user_id = current_user,
                t_goal_id = tc_goal_id transaction_data,
                t_amount = tc_amount transaction_data,
                t_transaction_type = tc_transaction_type transaction_data,
                t_method = tc_method transaction_data,
                t_status = T_PENDING,
                t_description = tc_description transaction_data,
                t_reference_number = None,
                t_mpesa_reference = None,
                t_phone_number = tc_phone_number transaction_data,
                t_paybill_number = tc_paybill_number transaction_data,
                t_account_number = tc_account_number transaction_data,
                t_transaction_fee = 0,
                t_created_at = utcnow,
                t_processed_at = None \<rparr>;
              d' = d\<lparr>transactions := transactions d @ [transaction]\<rparr>
          in Inr (d', transaction,
                  if tc_method transaction_data = MPESA
                  then [ProcessMpesaPayment new_id (tc_phone_number transaction_data)
                          (tc_amount transaction_data)]
                  else [])))"

text \<open>
  \<^verbatim>\<open>get_transactions\<close>: the caller's rows, optionally narrowed by goal and status, newest
  first, then \<^verbatim>\<open>offset(skip).limit(limit)\<close>. Rows with equal \<^verbatim>\<open>created_at\<close> keep table order.
\<close>

definition get_transactions ::
  "db \<Rightarrow> uuid \<Rightarrow> uuid option \<Rightarrow> TransactionStatus option \<Rightarrow> nat \<Rightarrow> nat \<Rightarrow> Transaction list" where
  "get_transactions d current_user goal_id status skip limit =
     (let q0 = filter (\<lambda>t. t_user_id t = current_user) (transactions d);
          q1 = (case goal_id of None \<Rightarrow> q0 | Some gid \<Rightarrow> filter (\<lambda>t. t_goal_id t = gid) q0);
          q2 = (case status of None \<Rightarrow> q1 | Some s \<Rightarrow> filter (\<lambda>t. t_status t = s) q1)
      in take limit (drop skip (rev (sort_key t_created_at q2))))"

definition get_transaction :: "db \<Rightarrow> uuid \<Rightarrow> uuid \<Rightarrow> error + Transaction" where
  "get_transaction d current_user transaction_id =
     (case find (\<lambda>t. t_id t = transaction_id \<and> t_user_id t = current_user) (transactions d) of
        None \<Rightarrow> Inl (HTTP_404_NOT_FOUND ''Transaction not found'')
      | Some transaction \<Rightarrow> Inr transaction)"

text \<open>
  \<^verbatim>\<open>initiate_mpesa_payment\<close>. The call to \<^verbatim>\<open>MPesaService.initiate_stk_push\<close> is the parameter
  \<open>stk\<close>: \<open>Inl msg\<close> when it raises an exception with text \<open>msg\<close>, \<open>Inr r\<close> when it returns a
  response whose \<^verbatim>\<open>CheckoutRequestID\<close> entry is \<open>r\<close>. The first commit (the pending row) happens
  before the gateway is called, so the function returns the committed state also when it
  raises the HTTP error.
\<close>

record mpesa_response =
  r_message :: string
  r_transaction_id :: uuid
  r_checkout_request_id :: "string option"

definition new_mpesa_transaction ::
  "uuid \<Rightarrow> MPesaPaymentRequest \<Rightarrow> Goal \<Rightarrow> uuid \<Rightarrow> datetime \<Rightarrow> Transaction" where
  "new_mpesa_transaction current_user payment_data goal new_id utcnow = \<lparr>
     t_id = new_id,
     t_user_id = current_user,
     t_goal_id = mp_goal_id payment_data,
     t_amount = mp_amount payment_data,
     t_transaction_type = DEPOSIT,
     t_method = MPESA,
     t_status = T_PENDING,
     t_description = Some (''M-Pesa payment to '' @ g_title goal),
     t_reference_number = None,
     t_mpesa_reference = None,
     t_phone_number = Some (mp_phone_number payment_data),
     t_paybill_number = Some (mp_paybill_number payment_data),
     t_account_number = Some (mp_account_number payment_data),
     t_transaction_fee = 0,
     t_created_at = utcnow,
     t_processed_at = None \<rparr>"

definition initiate_mpesa_payment ::
  "db \<Rightarrow> uuid \<Rightarrow> MPesaPaymentRequest \<Rightarrow> uuid \<Rightarrow> datetime \<Rightarrow> string + string option
     \<Rightarrow> db \<times> (error + mpesa_response) \<times> task list" where
  "initiate_mpesa_payment d current_user payment_data new_id utcnow stk =
     (case validate_phone_number (mp_phone_number payment_data) of
        Inl e \<Rightarrow> (d, Inl e, [])
      | Inr _ \<Rightarrow>
     (case find (\<lambda>g. g_id g = mp_goal_id payment_data \<and> g_user_id g = current_user) (goals d) of
        None \<Rightarrow> (d, Inl (HTTP_404_NOT_FOUND ''Goal not found''), [])
      | Some goal \<Rightarrow>
          let transaction = new_mpesa_transaction current_user payment_data goal new_id utcnow
          in (case stk of
                Inr r \<Rightarrow>
                  (d\<lparr>transactions := transactions d @ [transaction\<lparr>t_reference_number := r\<rparr>]\<rparr>,
                   Inr \<lparr>r_message = ''Payment initiated successfully'',
                        r_transaction_id = new_id,
                        r_checkout_request_id = r\<rparr>,
                   [CheckMpesaPaymentStatus new_id r])
              | Inl e \<Rightarrow>
                  (d\<lparr>transactions := transactions d @ [transaction\<lparr>t_status := T_FAILED\<rparr>]\<rparr>,
                   Inl (HTTP_400_BAD_REQUEST (''Payment initiation failed: '' @ e)),
                   []))))"

text \<open>
  \<^verbatim>\<open>process_mpesa_payment\<close>, the background task queued by \<^verbatim>\<open>create_transaction\<close>. \<open>utcnow\<close> is
  \<^verbatim>\<open>datetime.utcnow()\<close>; \<open>mpesa_ref\<close> is the string \<^verbatim>\<open>f"MP{datetime.now().strftime(...)}"\<close>. The
  result is the state at \<^verbatim>\<open>db.commit()\<close>; the notification that follows the commit does not
  touch the two tables.
\<close>

definition process_mpesa_payment :: "db \<Rightarrow> uuid \<Rightarrow> datetime \<Rightarrow> string \<Rightarrow> db" where
  "process_mpesa_payment d transaction_id utcnow mpesa_ref =
     (case find (\<lambda>t. t_id t = transaction_id) (transactions d) of
        None \<Rightarrow> d
      | Some transaction \<Rightarrow>
          let d1 = d\<lparr>transactions :=
                     update_first (\<lambda>t. t_id t = transaction_id)
                       (\<lambda>t. t\<lparr>t_status := T_COMPLETED,
                              t_processed_at := Some utcnow,
                              t_mpesa_reference := Some mpesa_ref\<rparr>)
                       (transactions d)\<rparr>
          in (case find (\<lambda>g. g_id g = t_goal_id transaction) (goals d) of
                None \<Rightarrow> d1
              | Some goal \<Rightarrow>
                  d1\<lparr>goals :=
                       update_first (\<lambda>g. g_id g = t_goal_id transaction)
                         (\<lambda>g. g\<lparr>g_current_amount := g_current_amount g + t_amount transaction,
                                g_updated_at := utcnow\<rparr>)
                         (goals d)\<rparr>))"

text \<open>\<^verbatim>\<open>check_mpesa_payment_status\<close>, the background task queued by \<^verbatim>\<open>initiate_mpesa_payment\<close>.\<close>

definition check_mpesa_payment_status :: "db \<Rightarrow> uuid \<Rightarrow> datetime \<Rightarrow> db" where
  "check_mpesa_payment_status d transaction_id utcnow =
     (case find (\<lambda>t. t_id t = transaction_id) (transactions d) of
        None \<Rightarrow> d
      | Some transaction \<Rightarrow>
          if t_status transaction = T_PENDING
          then d\<lparr>transactions :=
                   update_first (\<lambda>t. t_id t = transaction_id)
                     (\<lambda>t. t\<lparr>t_status := T_COMPLETED, t_processed_at := Some utcnow\<rparr>)
                     (transactions d)\<rparr>
          else d)"

text \<open>Running a queued background task.\<close>

fun run_task :: "db \<Rightarrow> task \<Rightarrow> datetime \<Rightarrow> string \<Rightarrow> db" where
  "run_task d (ProcessMpesaPayment tid phone amount) utcnow mpesa_ref =
     process_mpesa_payment d tid utcnow mpesa_ref"
| "run_task d (CheckMpesaPaymentStatus tid checkout) utcnow mpesa_ref =
     check_mpesa_payment_status d tid utcnow"

section \<open>Goals API (\<^verbatim>\<open>api/goals.py\<close>)\<close>

text \<open>
  \<^verbatim>\<open>schemas/goal.py\<close>, class \<^verbatim>\<open>GoalUpdate\<close>. Every field is optional, and
  \<^verbatim>\<open>goal_data.dict(exclude_unset=True)\<close> keeps the fields that the request body mentions: a field
  is \<open>Unset\<close> when the body omits it and \<open>Given v\<close> when the body has it, where \<open>v = None\<close> is an
  explicit \<^verbatim>\<open>null\<close>.
\<close>

datatype 'a upd = Unset | Given 'a

record GoalUpdate =
  gu_title :: "string option upd"
  gu_description :: "string option upd"
  gu_target_amount :: "decimal option upd"
  gu_target_date :: "datetime option upd"
  gu_category :: "GoalCategory option upd"
  gu_priority :: "GoalPriority option upd"
  gu_status :: "GoalStatus option upd"
  gu_auto_save_amount :: "decimal option upd"
  gu_auto_save_frequency :: "string option upd"

text \<open>\<^verbatim>\<open>setattr(goal, field, value)\<close> on a nullable column, and on a column declared
  \<^verbatim>\<open>nullable=False\<close> (where \<^verbatim>\<open>null\<close> is rejected before anything is stored, see \<open>update_goal\<close>).\<close>

fun assign :: "'a upd \<Rightarrow> 'a \<Rightarrow> 'a" where
  "assign Unset old = old"
| "assign (Given v) old = v"

fun assign_required :: "'a option upd \<Rightarrow> 'a \<Rightarrow> 'a" where
  "assign_required (Given (Some v)) old = v"
| "assign_required _ old = old"

definition apply_update :: "GoalUpdate \<Rightarrow> Goal \<Rightarrow> Goal" where
  "apply_update goal_data goal = goal\<lparr>
     g_title := assign_required (gu_title goal_data) (g_title goal),
     g_description := assign (gu_description goal_data) (g_description goal),
     g_target_amount := assign_required (gu_target_amount goal_data) (g_target_amount goal),
     g_target_date := assign_required (gu_target_date goal_data) (g_target_date goal),
     g_category := assign_required (gu_category goal_data) (g_category goal),
     g_priority := assign (gu_priority goal_data) (g_priority goal),
     g_status := assign (gu_status goal_data) (g_status goal),
     g_auto_save_amount := assign (gu_auto_save_amount goal_data) (g_auto_save_amount goal),
     g_auto_save_frequency :=
       assign (gu_auto_save_frequency goal_data) (g_auto_save_frequency goal)\<rparr>"

text \<open>The completion check of \<^verbatim>\<open>update_goal\<close> (lines 111 to 114).\<close>

definition check_completed :: "datetime \<Rightarrow> Goal \<Rightarrow> Goal" where
  "check_completed utcnow goal =
     (if g_current_amount goal \<ge> g_target_amount goal \<and> g_status goal \<noteq> Some G_COMPLETED
      then goal\<lparr>g_status := Some G_COMPLETED, g_completed_at := Some utcnow\<rparr>
      else goal)"

text \<open>
  \<^verbatim>\<open>update_goal\<close>. A \<^verbatim>\<open>null\<close> target amount makes the comparison of line 112 raise
  \<^verbatim>\<open>TypeError\<close>; a \<^verbatim>\<open>null\<close> in another \<^verbatim>\<open>nullable=False\<close> column makes the commit fail. In both
  cases nothing is stored.
\<close>

definition update_goal ::
  "db \<Rightarrow> uuid \<Rightarrow> uuid \<Rightarrow> GoalUpdate \<Rightarrow> datetime \<Rightarrow> error + (db \<times> Goal)" where
  "update_goal d current_user goal_id goal_data utcnow =
     (case find (\<lambda>g. g_id g = goal_id \<and> g_user_id g = current_user) (goals d) of
        None \<Rightarrow> Inl (HTTP_404_NOT_FOUND ''Goal not found'')
      | Some goal \<Rightarrow>
          if gu_target_amount goal_data = Given None then Inl TypeError
          else if gu_title goal_data = Given None \<or> gu_target_date goal_data = Given None
                  \<or> gu_category goal_data = Given None
          then Inl IntegrityError
          else
            let goal' = check_completed utcnow
                          ((apply_update goal_data goal)\<lparr>g_updated_at := utcnow\<rparr>)
            in Inr (d\<lparr>goals :=
                        update_first (\<lambda>g. g_id g = goal_id \<and> g_user_id g = current_user)
                          (\<lambda>_. goal') (goals d)\<rparr>,
                    goal'))"

text \<open>\<^verbatim>\<open>schemas/goal.py\<close>, class \<^verbatim>\<open>GoalCreate\<close>, and \<^verbatim>\<open>create_goal\<close>. \<open>now\<close> is the clock read of
  the target-date validator, \<open>utcnow\<close> the column default of the two timestamps.\<close>

record GoalCreate =
  gc_title :: string
  gc_description :: "string option"
  gc_target_amount :: decimal
  gc_target_date :: datetime
  gc_category :: GoalCategory
  gc_priority :: GoalPriority
  gc_auto_save_amount :: "decimal option"
  gc_auto_save_frequency :: "string option"

definition validate_target_amount :: "decimal \<Rightarrow> error + decimal" where
  "validate_target_amount v =
     (if v \<le> 0 then Inl (ValueError ''Target amount must be positive'') else Inr v)"

definition validate_target_date :: "datetime \<Rightarrow> datetime \<Rightarrow> error + datetime" where
  "validate_target_date now v =
     (if v \<le> now then Inl (ValueError ''Target date must be in the future'') else Inr v)"

definition create_goal ::
  "db \<Rightarrow> uuid \<Rightarrow> GoalCreate \<Rightarrow> uuid \<Rightarrow> datetime \<Rightarrow> datetime \<Rightarrow> error + (db \<times> Goal)" where
  "create_goal d current_user goal_data new_id now utcnow =
     (case validate_target_amount (gc_target_amount goal_data) of
        Inl e \<Rightarrow> Inl e
      | Inr _ \<Rightarrow>
     (case validate_target_date now (gc_target_date goal_data) of
        Inl e \<Rightarrow> Inl e
      | Inr _ \<Rightarrow>
          let goal = \<lparr>
                g_id = new_id,
                g_user_id = current_user,
                g_title = gc_title goal_data,
                g_description = gc_description goal_data,
                g_target_amount = gc_target_amount goal_data,
                g_current_amount = 0,
                g_target_date = gc_target_date goal_data,
                g_category = gc_category goal_data,
                g_priority = Some (gc_priority goal_data),
                g_status = Some G_ACTIVE,
                g_milestones = None,
                g_auto_save_amount = gc_auto_save_amount goal_data,
                g_auto_save_frequency = gc_auto_save_frequency goal_data,
                g_created_at = utcnow,
                g_updated_at = utcnow,
                g_completed_at = None \<rparr>
          in Inr (d\<lparr>goals := goals d @ [goal]\<rparr>, goal)))"

text \<open>\<^verbatim>\<open>get_goals\<close>: \<^verbatim>\<open>skip\<close> and \<^verbatim>\<open>limit\<close> are bounded by the \<^verbatim>\<open>Query\<close> declarations
  (\<^verbatim>\<open>ge=0\<close>; \<^verbatim>\<open>ge=1, le=100\<close>). Without \<^verbatim>\<open>order_by\<close> the rows come in table order.\<close>

definition get_goals ::
  "db \<Rightarrow> uuid \<Rightarrow> GoalStatus option \<Rightarrow> GoalCategory option \<Rightarrow> nat \<Rightarrow> nat \<Rightarrow> error + Goal list" where
  "get_goals d current_user status category skip limit =
     (if limit < 1 \<or> limit > 100 then Inl (ValueError ''limit'')
      else
        let q0 = filter (\<lambda>g. g_user_id g = current_user) (goals d);
            q1 = (case status of None \<Rightarrow> q0 | Some s \<Rightarrow> filter (\<lambda>g. g_status g = Some s) q0);
            q2 = (case category of None \<Rightarrow> q1 | Some c \<Rightarrow> filter (\<lambda>g. g_category g = c) q1)
        in Inr (take limit (drop skip q2)))"

definition get_goal :: "db \<Rightarrow> uuid \<Rightarrow> uuid \<Rightarrow> error + Goal" where
  "get_goal d current_user goal_id =
     (case find (\<lambda>g. g_id g = goal_id \<and> g_user_id g = current_user) (goals d) of
        None \<Rightarrow> Inl (HTTP_404_NOT_FOUND ''Goal not found'')
      | Some goal \<Rightarrow> Inr goal)"

text \<open>
  \<^verbatim>\<open>delete_goal\<close>. The relationships \<^verbatim>\<open>transactions\<close> and \<^verbatim>\<open>goal_shares\<close> have no delete cascade
  and their foreign keys are \<^verbatim>\<open>nullable=False\<close>, so deleting a goal that still has rows in
  either table fails at the commit.
\<close>

definition delete_goal :: "db \<Rightarrow> uuid \<Rightarrow> uuid \<Rightarrow> error + db" where
  "delete_goal d current_user goal_id =
     (case find (\<lambda>g. g_id g = goal_id \<and> g_user_id g = current_user) (goals d) of
        None \<Rightarrow> Inl (HTTP_404_NOT_FOUND ''Goal not found'')
      | Some goal \<Rightarrow>
          if list_ex (\<lambda>t. t_goal_id t = g_id goal) (transactions d)
             \<or> list_ex (\<lambda>s. s_goal_id s = g_id goal) (goal_shares d)
          then Inl IntegrityError
          else Inr (d\<lparr>goals :=
                       delete_first (\<lambda>g. g_id g = goal_id \<and> g_user_id g = current_user)
                         (goals d)\<rparr>))"

text \<open>\<^verbatim>\<open>share_goal\<close>. \<open>new_id\<close> and \<open>utcnow\<close> are the column defaults of the new row.\<close>

definition share_goal ::
  "db \<Rightarrow> uuid \<Rightarrow> uuid \<Rightarrow> string \<Rightarrow> string \<Rightarrow> uuid \<Rightarrow> datetime \<Rightarrow> error + db" where
  "share_goal d current_user goal_id shared_with_email permission_level new_id utcnow =
     (case find (\<lambda>g. g_id g = goal_id \<and> g_user_id g = current_user) (goals d) of
        None \<Rightarrow> Inl (HTTP_404_NOT_FOUND ''Goal not found'')
      | Some goal \<Rightarrow>
     (case find (\<lambda>u. u_email u = shared_with_email) (users d) of
        None \<Rightarrow> Inl (HTTP_404_NOT_FOUND ''User not found'')
      | Some shared_user \<Rightarrow>
     (case find (\<lambda>s. s_goal_id s = goal_id \<and> s_shared_with_user_id s = u_id shared_user)
             (goal_shares d) of
        Some existing_share \<Rightarrow> Inl (HTTP_400_BAD_REQUEST ''Goal already shared with this user'')
      | None \<Rightarrow>
          Inr (d\<lparr>goal_shares := goal_shares d @
                 [\<lparr>s_id = new_id, s_goal_id = g_id goal,
                   s_shared_with_user_id = u_id shared_user,
                   s_permission_level = permission_level,
                   s_created_at = utcnow\<rparr>]\<rparr>))))"

text \<open>
  \<^verbatim>\<open>get_goal_analytics\<close> (the goal-level analytics). For a goal of the caller, line 175
  divides two \<^verbatim>\<open>Decimal\<close>s, which raises when the target amount is 0; lines 176 to 180
  compute the days remaining and the required daily savings into local variables; line
  183 then evaluates \<^verbatim>\<open>db.query(Transaction)\<close>. The module imports \<^verbatim>\<open>User\<close>, \<^verbatim>\<open>Goal\<close>,
  \<^verbatim>\<open>GoalStatus\<close> and \<^verbatim>\<open>GoalShare\<close> but not \<^verbatim>\<open>Transaction\<close>, so this raises \<^verbatim>\<open>NameError\<close> and
  the rest of the function (the monthly average and the \<^verbatim>\<open>GoalAnalytics\<close> result) is never
  reached.
\<close>

record GoalAnalytics =
  ga_goal_id :: uuid
  ga_progress_percentage :: rat
  ga_days_remaining :: int
  ga_daily_required_savings :: rat
  ga_monthly_average_savings :: rat
  ga_projected_completion_date :: datetime
  ga_is_on_track :: bool

definition get_goal_analytics :: "db \<Rightarrow> uuid \<Rightarrow> uuid \<Rightarrow> datetime \<Rightarrow> error + GoalAnalytics" where
  "get_goal_analytics d current_user goal_id utcnow =
     (case find (\<lambda>g. g_id g = goal_id \<and> g_user_id g = current_user) (goals d) of
        None \<Rightarrow> Inl (HTTP_404_NOT_FOUND ''Goal not found'')
      | Some goal \<Rightarrow>
          if g_target_amount goal = 0 then Inl ZeroDivisionError
          else Inl NameError)"

section \<open>Analytics API (\<^verbatim>\<open>api/analytics.py\<close>)\<close>

text \<open>\<^verbatim>\<open>schemas/analytics.py\<close>. The \<^verbatim>\<open>month\<close> label is kept as a pair of year and month.\<close>

record MonthlyTrend =
  mt_month :: "int \<times> int"
  mt_amount :: rat

record CategoryBreakdown =
  cb_category :: GoalCategory
  cb_current_amount :: rat
  cb_target_amount :: rat
  cb_percentage :: rat

record SavingsAnalytics =
  sa_total_savings :: rat
  sa_total_target :: rat
  sa_overall_progress :: rat
  sa_active_goals :: nat
  sa_completed_goals :: nat
  sa_monthly_savings_rate :: rat
  sa_monthly_trends :: "MonthlyTrend list"
  sa_category_breakdown :: "CategoryBreakdown list"

record GoalProgressAnalytics =
  gp_goal_id :: uuid
  gp_goal_title :: string
  gp_current_amount :: rat
  gp_target_amount :: rat
  gp_progress_percentage :: rat
  gp_days_remaining :: int
  gp_daily_required_savings :: rat
  gp_daily_average_savings :: rat
  gp_predicted_completion_date :: datetime
  gp_is_on_track :: bool
  gp_velocity_trend :: string

text \<open>
  \<^verbatim>\<open>get_savings_overview\<close>, lines 47 to 64: the window of loop index \<open>i\<close> and the deposits
  counted in it. \<open>now\<close> is \<^verbatim>\<open>datetime.now()\<close>, a present-day instant.
\<close>

definition month_start :: "datetime \<Rightarrow> nat \<Rightarrow> datetime" where
  "month_start now i = replace_day1 now - timedelta_days (30 * int i)"

definition month_end :: "datetime \<Rightarrow> nat \<Rightarrow> datetime" where
  "month_end now i = month_start now i + timedelta_days 31"

definition monthly_deposits :: "db \<Rightarrow> uuid \<Rightarrow> datetime \<Rightarrow> nat \<Rightarrow> rat" where
  "monthly_deposits d current_user now i =
     sum_list (map t_amount
       (filter (\<lambda>t. t_user_id t = current_user \<and> t_transaction_type t = DEPOSIT
                    \<and> t_status t = T_COMPLETED
                    \<and> t_created_at t \<ge> month_start now i
                    \<and> t_created_at t < month_end now i)
          (transactions d)))"

definition monthly_trends :: "db \<Rightarrow> uuid \<Rightarrow> datetime \<Rightarrow> MonthlyTrend list" where
  "monthly_trends d current_user now =
     rev (map (\<lambda>i. \<lparr>mt_month = strftime_Y_m (month_start now i),
                     mt_amount = monthly_deposits d current_user now i\<rparr>) [0..<12])"

text \<open>
  Lines 66 to 83: one row per category that has a goal of the user (SQL leaves the order of
  the groups open; here they come in the order of \<^const>\<open>remdups\<close>), then the percentage with
  the divisor \<^verbatim>\<open>float(cat.total_target or 1)\<close>.
\<close>

definition category_data :: "db \<Rightarrow> uuid \<Rightarrow> (GoalCategory \<times> rat \<times> rat) list" where
  "category_data d current_user =
     (let mine = filter (\<lambda>g. g_user_id g = current_user) (goals d)
      in map (\<lambda>c. (c,
                    sum_list (map g_current_amount (filter (\<lambda>g. g_category g = c) mine)),
                    sum_list (map g_target_amount (filter (\<lambda>g. g_category g = c) mine))))
           (remdups (map g_category mine)))"

definition category_breakdown :: "db \<Rightarrow> uuid \<Rightarrow> CategoryBreakdown list" where
  "category_breakdown d current_user =
     map (\<lambda>(category, total_saved, total_target).
            \<lparr>cb_category = category,
             cb_current_amount = total_saved,
             cb_target_amount = total_target,
             cb_percentage =
               (total_saved / (if total_target = 0 then 1 else total_target)) * 100\<rparr>)
       (category_data d current_user)"

definition get_savings_overview :: "db \<Rightarrow> uuid \<Rightarrow> datetime \<Rightarrow> SavingsAnalytics" where
  "get_savings_overview d current_user now =
     (let mine = filter (\<lambda>g. g_user_id g = current_user) (goals d);
          total_savings = sum_list (map g_current_amount mine);
          total_target = sum_list (map g_target_amount mine);
          active_goals = length (filter (\<lambda>g. g_status g = Some G_ACTIVE) mine);
          completed_goals = length (filter (\<lambda>g. g_status g = Some G_COMPLETED) mine);
          three_months_ago = now - timedelta_days 90;
          recent_deposits =
            sum_list (map t_amount
              (filter (\<lambda>t. t_user_id t = current_user \<and> t_transaction_type t = DEPOSIT
                           \<and> t_status t = T_COMPLETED \<and> t_created_at t \<ge> three_months_ago)
                 (transactions d)))
      in \<lparr>sa_total_savings = total_savings,
          sa_total_target = total_target,
          sa_overall_progress =
            (if total_target > 0 then (total_savings / total_target) * 100 else 0),
          sa_active_goals = active_goals,
          sa_completed_goals = completed_goals,
          sa_monthly_savings_rate = recent_deposits / 3,
          sa_monthly_trends = monthly_trends d current_user now,
          sa_category_breakdown = category_breakdown d current_user\<rparr>)"

text \<open>
  \<^verbatim>\<open>get_goal_progress_analytics\<close> (the user-level analytics), one definition for each local
  variable of the loop body: the days remaining (line 119), the required daily savings
  (lines 122 and 123), the deposits of the last 30 days (lines 126 to 132), the daily
  average (line 134) and the predicted completion date (lines 137 to 141); then the body of
  the loop for one goal, and the loop, which stops at the first goal whose computation
  raises. The quotients are taken in double precision, as \<^verbatim>\<open>float(...) / ...\<close> does.
\<close>

definition days_remaining :: "Goal \<Rightarrow> datetime \<Rightarrow> int" where
  "days_remaining goal now = days_of (g_target_date goal - now)"

definition daily_required :: "Goal \<Rightarrow> datetime \<Rightarrow> rat" where
  "daily_required goal now =
     (let remaining_amount = g_target_amount goal - g_current_amount goal
      in if days_remaining goal now > 0
         then fdiv (float_of remaining_amount)
                (float_of (of_int (max (days_remaining goal now) 1)))
         else 0)"

definition recent_deposits_30 :: "db \<Rightarrow> uuid \<Rightarrow> datetime \<Rightarrow> rat" where
  "recent_deposits_30 d goal_id now =
     sum_list (map t_amount
       (filter (\<lambda>t. t_goal_id t = goal_id \<and> t_transaction_type t = DEPOSIT
                    \<and> t_status t = T_COMPLETED
                    \<and> t_created_at t \<ge> now - timedelta_days 30)
          (transactions d)))"

definition daily_average :: "db \<Rightarrow> Goal \<Rightarrow> datetime \<Rightarrow> rat" where
  "daily_average d goal now = fdiv (float_of (recent_deposits_30 d (g_id goal) now)) 30"

definition predicted_completion :: "db \<Rightarrow> datetime \<Rightarrow> Goal \<Rightarrow> error + datetime" where
  "predicted_completion d now goal =
     (let remaining_amount = g_target_amount goal - g_current_amount goal
      in if daily_average d goal now > 0
         then
           let days_to_complete = fdiv (float_of remaining_amount) (daily_average d goal now)
           in (case timedelta_of_float_days days_to_complete of
                 Inl e \<Rightarrow> Inl e
               | Inr delta \<Rightarrow> add_timedelta now delta)
         else Inr (g_target_date goal))"

definition goal_progress :: "db \<Rightarrow> datetime \<Rightarrow> Goal \<Rightarrow> error + GoalProgressAnalytics" where
  "goal_progress d now goal =
     (case predicted_completion d now goal of
        Inl e \<Rightarrow> Inl e
      | Inr predicted \<Rightarrow>
          if g_target_amount goal = 0 then Inl ZeroDivisionError
          else Inr \<lparr>
            gp_goal_id = g_id goal,
            gp_goal_title = g_title goal,
            gp_current_amount = float_of (g_current_amount goal),
            gp_target_amount = float_of (g_target_amount goal),
            gp_progress_percentage =
              fmul (fdiv (float_of (g_current_amount goal)) (float_of (g_target_amount goal)))
                100,
            gp_days_remaining = days_remaining goal now,
            gp_daily_required_savings = daily_required goal now,
            gp_daily_average_savings = daily_average d goal now,
            gp_predicted_completion_date = predicted,
            gp_is_on_track =
              (if daily_required goal now > 0
               then daily_average d goal now \<ge> daily_required goal now else True),
            gp_velocity_trend =
              (if daily_average d goal now > daily_required goal now
               then ''increasing'' else ''decreasing'')\<rparr>)"

fun for_each :: "('a \<Rightarrow> error + 'b) \<Rightarrow> 'a list \<Rightarrow> error + 'b list" where
  "for_each f [] = Inr []"
| "for_each f (x # xs) =
     (case f x of
        Inl e \<Rightarrow> Inl e
      | Inr y \<Rightarrow> (case for_each f xs of Inl e \<Rightarrow> Inl e | Inr ys \<Rightarrow> Inr (y # ys)))"

definition get_goal_progress_analytics ::
  "db \<Rightarrow> uuid \<Rightarrow> datetime \<Rightarrow> error + GoalProgressAnalytics list" where
  "get_goal_progress_analytics d current_user now =
     for_each (goal_progress d now) (filter (\<lambda>g. g_user_id g = current_user) (goals d))"

section \<open>The ledger relation\<close>

text \<open>
  The balance that the completed transactions of a goal account for: completed deposits
  minus completed withdrawals.
\<close>

definition completed_sum :: "db \<Rightarrow> uuid \<Rightarrow> TransactionType \<Rightarrow> decimal" where
  "completed_sum d goal_id ty =
     sum_list (map t_amount
       (filter (\<lambda>t. t_goal_id t = goal_id \<and> t_status t = T_COMPLETED \<and> t_transaction_type t = ty)
          (transactions d)))"

definition ledger_balance :: "db \<Rightarrow> uuid \<Rightarrow> decimal" where
  "ledger_balance d goal_id = completed_sum d goal_id DEPOSIT - completed_sum d goal_id WITHDRAWAL"

section \<open>The projection formulas in the spec's words\<close>

text \<open>
  These four definitions are not taken from the code. They follow the wording of the
  spec (section 4.2), so that the code can be compared with them: the days remaining are
  \<open>max(target_date - now, 0 days)\<close> in whole days, the daily required rate is
  \<open>(target_amount - current_amount) / max(days_remaining, 1)\<close>, the recent velocity is the sum
  of the completed deposit amounts of the goal within \<open>[now - window_days, now)\<close> divided by
  \<open>window_days\<close>, and a goal is on track when its velocity is at least the required rate.
  They are exact: the spec's formulas are over the amounts, not over floating-point numbers.
\<close>

definition spec_days_remaining :: "Goal \<Rightarrow> datetime \<Rightarrow> int" where
  "spec_days_remaining goal now = max (days_of (g_target_date goal - now)) 0"

definition spec_daily_required_rate :: "Goal \<Rightarrow> datetime \<Rightarrow> rat" where
  "spec_daily_required_rate goal now =
     (g_target_amount goal - g_current_amount goal)
       / of_int (max (spec_days_remaining goal now) 1)"

definition spec_recent_velocity :: "db \<Rightarrow> Goal \<Rightarrow> datetime \<Rightarrow> int \<Rightarrow> rat" where
  "spec_recent_velocity d goal now window_days =
     sum_list (map t_amount
       (filter (\<lambda>t. t_goal_id t = g_id goal \<and> t_transaction_type t = DEPOSIT
                    \<and> t_status t = T_COMPLETED
                    \<and> now - timedelta_days window_days \<le> t_created_at t
                    \<and> t_created_at t < now)
          (transactions d)))
       / of_int window_days"

definition spec_is_on_track :: "rat \<Rightarrow> rat \<Rightarrow> bool" where
  "spec_is_on_track velocity required = (velocity \<ge> required)"

section \<open>Example states\<close>

text \<open>
  A user (id 7) with one goal (id 10): target 1000, nothing saved, created on 2024-03-15 at noon and
  due 30 days later. A second user (id 8) owns nothing.
\<close>

definition trip_goal :: Goal where
  "trip_goal = \<lparr>
     g_id = 10, g_user_id = 7, g_title = ''Trip'', g_description = None,
     g_target_amount = 1000, g_current_amount = 0,
     g_target_date = mk_datetime 2024 4 14 12 0 0,
     g_category = VACATION, g_priority = Some MEDIUM, g_status = Some G_ACTIVE,
     g_milestones = None, g_auto_save_amount = None, g_auto_save_frequency = None,
     g_created_at = mk_datetime 2024 3 15 12 0 0,
     g_updated_at = mk_datetime 2024 3 15 12 0 0,
     g_completed_at = None \<rparr>"

definition ledger0 :: db where
  "ledger0 = \<lparr>
     goals = [trip_goal], transactions = [], goal_shares = [],
     users = [\<lparr>u_id = 7, u_email = ''amina@example.org'', u_name = ''Amina''\<rparr>,
              \<lparr>u_id = 8, u_email = ''baraka@example.org'', u_name = ''Baraka''\<rparr>] \<rparr>"

text \<open>An M-Pesa payment request of 500 and an M-Pesa deposit of a given amount, both to goal 10.\<close>

definition pay500 :: MPesaPaymentRequest where
  "pay500 = \<lparr>mp_goal_id = 10, mp_amount = 500, mp_phone_number = ''254700000001'',
     mp_paybill_number = ''522522'', mp_account_number = ''ACC1''\<rparr>"

definition mpesa_deposit :: "decimal \<Rightarrow> TransactionCreate" where
  "mpesa_deposit a = \<lparr>tc_goal_id = 10, tc_amount = a, tc_transaction_type = DEPOSIT,
     tc_method = MPESA, tc_description = None, tc_phone_number = Some ''254700000001'',
     tc_paybill_number = None, tc_account_number = None\<rparr>"

text \<open>The empty update: a request body that mentions no field.\<close>

definition no_change :: GoalUpdate where
  "no_change = \<lparr>gu_title = Unset, gu_description = Unset, gu_target_amount = Unset,
     gu_target_date = Unset, gu_category = Unset, gu_priority = Unset, gu_status = Unset,
     gu_auto_save_amount = Unset, gu_auto_save_frequency = Unset\<rparr>"

text \<open>The deposit of 500 on goal 10, created through \<open>create_transaction\<close> on 2024-03-15 and
  settled by its \<open>process_mpesa_payment\<close> task, and the state after that settlement.\<close>

definition settled_deposit :: Transaction where
  "settled_deposit = \<lparr>
     t_id = 100, t_user_id = 7, t_goal_id = 10, t_amount = 500,
     t_transaction_type = DEPOSIT, t_method = MPESA, t_status = T_COMPLETED,
     t_description = None, t_reference_number = None,
     t_mpesa_reference = Some ''MP20240315150010'',
     t_phone_number = Some ''254700000001'', t_paybill_number = None,
     t_account_number = None, t_transaction_fee = 0,
     t_created_at = mk_datetime 2024 3 15 12 0 5,
     t_processed_at = Some (mk_datetime 2024 3 15 12 0 10) \<rparr>"

definition funded_goal :: Goal where
  "funded_goal = trip_goal\<lparr>g_current_amount := 500, g_updated_at := mk_datetime 2024 3 15 12 0 10\<rparr>"

definition funded_ledger :: db where
  "funded_ledger = ledger0\<lparr>goals := [funded_goal], transactions := [settled_deposit]\<rparr>"

text \<open>Updates of a single field: a new target amount, a new target date, a new status.\<close>

definition set_target_amount :: "decimal \<Rightarrow> GoalUpdate" where
  "set_target_amount a = no_change\<lparr>gu_target_amount := Given (Some a)\<rparr>"

definition set_target_date :: "datetime \<Rightarrow> GoalUpdate" where
  "set_target_date t = no_change\<lparr>gu_target_date := Given (Some t)\<rparr>"

definition set_status :: "GoalStatus \<Rightarrow> GoalUpdate" where
  "set_status s = no_change\<lparr>gu_status := Given (Some s)\<rparr>"

text \<open>The funded goal after its owner set the target amount to 0 on 2024-03-16.\<close>

definition zero_target_goal :: Goal where
  "zero_target_goal = funded_goal\<lparr>
     g_target_amount := 0, g_status := Some G_COMPLETED,
     g_updated_at := mk_datetime 2024 3 16 9 0 0,
     g_completed_at := Some (mk_datetime 2024 3 16 9 0 0)\<rparr>"

definition zero_target_ledger :: db where
  "zero_target_ledger = funded_ledger\<lparr>goals := [zero_target_goal]\<rparr>"

text \<open>The funded goal after its owner moved the target date to 2024-04-15 at noon; at 09:00
  on 2024-03-16 exactly 30 whole days remain.\<close>

definition tie_goal :: Goal where
  "tie_goal = funded_goal\<lparr>
     g_target_date := mk_datetime 2024 4 15 12 0 0,
     g_updated_at := mk_datetime 2024 3 16 8 0 0\<rparr>"

definition tie_ledger :: db where
  "tie_ledger = funded_ledger\<lparr>goals := [tie_goal]\<rparr>"

text \<open>
  Another goal of user 7 (id 12): target 200.80, created on 2024-03-15 at noon and due on
  2024-03-26 at noon; and the state after a deposit of 150.60 to it, created through
  \<open>create_transaction\<close> on 2024-03-15, was settled by its \<open>process_mpesa_payment\<close> task.
  On 2024-03-16 at 09:00 ten whole days remain and 50.20 is missing: 5.02 a day, which is
  also a thirtieth of the 150.60 deposited in the last 30 days.
\<close>

definition bike_goal0 :: Goal where
  "bike_goal0 = \<lparr>
     g_id = 12, g_user_id = 7, g_title = ''Bike'', g_description = None,
     g_target_amount = 2008 / 10, g_current_amount = 0,
     g_target_date = mk_datetime 2024 3 26 12 0 0,
     g_category = TOYS, g_priority = Some MEDIUM, g_status = Some G_ACTIVE,
     g_milestones = None, g_auto_save_amount = None, g_auto_save_frequency = None,
     g_created_at = mk_datetime 2024 3 15 12 0 0,
     g_updated_at = mk_datetime 2024 3 15 12 0 0,
     g_completed_at = None \<rparr>"

definition bike_ledger0 :: db where
  "bike_ledger0 = ledger0\<lparr>goals := [bike_goal0]\<rparr>"

definition bike_deposit_request :: TransactionCreate where
  "bike_deposit_request = \<lparr>tc_goal_id = 12, tc_amount = 1506 / 10, tc_transaction_type = DEPOSIT,
     tc_method = MPESA, tc_description = None, tc_phone_number = Some ''254700000001'',
     tc_paybill_number = None, tc_account_number = None\<rparr>"

definition bike_deposit :: Transaction where
  "bike_deposit = \<lparr>
     t_id = 300, t_user_id = 7, t_goal_id = 12, t_amount = 1506 / 10,
     t_transaction_type = DEPOSIT, t_method = MPESA, t_status = T_COMPLETED,
     t_description = None, t_reference_number = None,
     t_mpesa_reference = Some ''MP20240315150010'',
     t_phone_number = Some ''254700000001'', t_paybill_number = None,
     t_account_number = None, t_transaction_fee = 0,
     t_created_at = mk_datetime 2024 3 15 12 0 5,
     t_processed_at = Some (mk_datetime 2024 3 15 12 0 10) \<rparr>"

definition bike_goal :: Goal where
  "bike_goal = bike_goal0\<lparr>g_current_amount := 1506 / 10,
     g_updated_at := mk_datetime 2024 3 15 12 0 10\<rparr>"

definition bike_ledger :: db where
  "bike_ledger = bike_ledger0\<lparr>goals := [bike_goal], transactions := [bike_deposit]\<rparr>"

text \<open>
  A second state of user 7: a goal created in January 2024 and one deposit of 100 to it,
  created on 2024-03-01 at 18:00 and settled five seconds later.
\<close>

definition school_goal :: Goal where
  "school_goal = \<lparr>
     g_id = 11, g_user_id = 7, g_title = ''School fees'', g_description = None,
     g_target_amount = 50000, g_current_amount = 100,
     g_target_date = mk_datetime 2024 12 20 0 0 0,
     g_category = EDUCATION, g_priority = Some HIGH, g_status = Some G_ACTIVE,
     g_milestones = None, g_auto_save_amount = None, g_auto_save_frequency = None,
     g_created_at = mk_datetime 2024 1 10 9 0 0,
     g_updated_at = mk_datetime 2024 3 1 18 0 5,
     g_completed_at = None \<rparr>"

definition march_deposit :: Transaction where
  "march_deposit = \<lparr>
     t_id = 200, t_user_id = 7, t_goal_id = 11, t_amount = 100,
     t_transaction_type = DEPOSIT, t_method = MPESA, t_status = T_COMPLETED,
     t_description = None, t_reference_number = None,
     t_mpesa_reference = Some ''MP20240301210005'',
     t_phone_number = Some ''254700000001'', t_paybill_number = None,
     t_account_number = None, t_transaction_fee = 0,
     t_created_at = mk_datetime 2024 3 1 18 0 0,
     t_processed_at = Some (mk_datetime 2024 3 1 18 0 5) \<rparr>"

definition school_ledger :: db where
  "school_ledger = ledger0\<lparr>goals := [school_goal], transactions := [march_deposit]\<rparr>"

text \<open>
  The first example continued: a second deposit of 500 settles on 2024-03-16 and brings
  the trip goal to its target (the goal stays active, see claim C3); an update without
  changes at 09:01 then completes it.
\<close>

definition second_deposit :: Transaction where
  "second_deposit = \<lparr>
     t_id = 101, t_user_id = 7, t_goal_id = 10, t_amount = 500,
     t_transaction_type = DEPOSIT, t_method = MPESA, t_status = T_COMPLETED,
     t_description = None, t_reference_number = None,
     t_mpesa_reference = Some ''MP20240316120005'',
     t_phone_number = Some ''254700000001'', t_paybill_number = None,
     t_account_number = None, t_transaction_fee = 0,
     t_created_at = mk_datetime 2024 3 16 9 0 0,
     t_processed_at = Some (mk_datetime 2024 3 16 9 0 5) \<rparr>"

definition full_goal :: Goal where
  "full_goal = trip_goal\<lparr>g_current_amount := 1000, g_updated_at := mk_datetime 2024 3 16 9 0 5\<rparr>"

definition full_ledger :: db where
  "full_ledger = ledger0\<lparr>goals := [full_goal],
     transactions := [settled_deposit, second_deposit]\<rparr>"

definition completed_goal :: Goal where
  "completed_goal = full_goal\<lparr>
     g_status := Some G_COMPLETED,
     g_updated_at := mk_datetime 2024 3 16 9 1 0,
     g_completed_at := Some (mk_datetime 2024 3 16 9 1 0)\<rparr>"

definition completed_ledger :: db where
  "completed_ledger = full_ledger\<lparr>goals := [completed_goal]\<rparr>"

section \<open>Settlement and the ledger\<close>

text \<open>
  Claim C1: after every settlement (a pending transaction reaching \<open>completed\<close> by either
  settlement path) the completed deposits minus the completed withdrawals of a goal equal
  its current amount.

  The code does not keep this. \<open>process_mpesa_payment\<close> credits the goal when it completes a
  transaction; its sibling \<open>check_mpesa_payment_status\<close>, the task that
  \<open>initiate_mpesa_payment\<close> queues, completes the transaction and never touches the goal.
  Evaluated on the example state: user 7 initiates a payment of 500 to goal 10, the gateway
  accepts it, the queued status check runs. Before the check the relation holds (0 = 0);
  after it the transaction is completed, the ledger holds 500 and the goal still shows 0.
\<close>

theorem check_mpesa_payment_status_skips_credit:
  "(case initiate_mpesa_payment ledger0 7 pay500 100 (mk_datetime 2024 3 15 12 0 5)
           (Inr (Some ''ws_CO_1'')) of
      (d1, response, tasks) \<Rightarrow>
        tasks = [CheckMpesaPaymentStatus 100 (Some ''ws_CO_1'')]
        \<and> map t_status (transactions d1) = [T_PENDING]
        \<and> ledger_balance d1 10 = 0
        \<and> map g_current_amount (goals d1) = [0]
        \<and> (let d2 = run_task d1 (hd tasks) (mk_datetime 2024 3 15 12 0 15) ''MP20240315150015''
           in map t_status (transactions d2) = [T_COMPLETED]
              \<and> map t_transaction_type (transactions d2) = [DEPOSIT]
              \<and> ledger_balance d2 10 = 500
              \<and> map g_current_amount (goals d2) = [0]))"
  by (simp add: initiate_mpesa_payment_def validate_phone_number_def new_mpesa_transaction_def
      check_mpesa_payment_status_def ledger_balance_def completed_sum_def Let_def
      ledger0_def trip_goal_def pay500_def)

text \<open>
  Claim C2: settlement is idempotent; settling a transaction that is already terminal is a
  no-op, and settling the same successful deposit twice does not credit the goal twice.

  \<open>process_mpesa_payment\<close> does not look at the transaction's status (its sibling
  \<open>check_mpesa_payment_status\<close> does, and only settles a pending one). Evaluated on the example
  state: user 7 creates an M-Pesa deposit of 500 on goal 10 and the queued task settles it;
  a second delivery of the same task for the same transaction id credits the goal again.
\<close>

theorem process_mpesa_payment_credits_twice:
  "(case create_transaction ledger0 7 (mpesa_deposit 500) 100 (mk_datetime 2024 3 15 12 0 5) of
      Inl e \<Rightarrow> False
    | Inr (d1, transaction, tasks) \<Rightarrow>
        tasks = [ProcessMpesaPayment 100 (Some ''254700000001'') 500]
        \<and> t_status transaction = T_PENDING
        \<and> (let d2 = process_mpesa_payment d1 100 (mk_datetime 2024 3 15 12 0 10)
                      ''MP20240315150010'';
               d3 = process_mpesa_payment d2 100 (mk_datetime 2024 3 15 12 0 20)
                      ''MP20240315150020''
           in map t_status (transactions d2) = [T_COMPLETED]
              \<and> map g_current_amount (goals d2) = [500]
              \<and> map t_status (transactions d3) = [T_COMPLETED]
              \<and> map g_current_amount (goals d3) = [1000]
              \<and> ledger_balance d3 10 = 500
              \<and> d3 \<noteq> d2))"
  by (simp add: create_transaction_def validate_amount_def process_mpesa_payment_def
      ledger_balance_def completed_sum_def Let_def ledger0_def trip_goal_def mpesa_deposit_def)

text \<open>
  Claim C3: a credit that brings an active goal to its target completes the goal (status
  \<open>completed\<close>, completion time recorded) in the same step; the transition is idempotent.

  The credit of \<open>process_mpesa_payment\<close> has no completion check; the check exists in
  \<open>update_goal\<close> only. Evaluated on the spec's scenario: two deposits of 500 settle on the
  goal with target 1000. After the second the goal holds 1000 and is still active with no
  completion time; an update of the goal that changes no field then completes it.
\<close>

theorem process_mpesa_payment_leaves_goal_active:
  "(case create_transaction ledger0 7 (mpesa_deposit 500) 100 (mk_datetime 2024 3 15 12 0 5) of
      Inl e \<Rightarrow> False
    | Inr (d1, transaction1, tasks1) \<Rightarrow>
       (let d2 = run_task d1 (hd tasks1) (mk_datetime 2024 3 15 12 0 10) ''MP20240315150010''
        in case create_transaction d2 7 (mpesa_deposit 500) 101 (mk_datetime 2024 3 16 9 0 0) of
             Inl e \<Rightarrow> False
           | Inr (d3, transaction2, tasks2) \<Rightarrow>
              (let d4 = run_task d3 (hd tasks2) (mk_datetime 2024 3 16 9 0 5)
                          ''MP20240316120005''
               in map g_current_amount (goals d2) = [500]
                  \<and> map t_status (transactions d4) = [T_COMPLETED, T_COMPLETED]
                  \<and> map g_current_amount (goals d4) = [1000]
                  \<and> map g_target_amount (goals d4) = [1000]
                  \<and> map g_status (goals d4) = [Some G_ACTIVE]
                  \<and> map g_completed_at (goals d4) = [None]
                  \<and> (case update_goal d4 7 10 no_change (mk_datetime 2024 3 16 9 1 0) of
                        Inl e \<Rightarrow> False
                      | Inr (d5, goal) \<Rightarrow>
                          g_status goal = Some G_COMPLETED
                          \<and> g_completed_at goal = Some (mk_datetime 2024 3 16 9 1 0)))))"
  by (simp add: create_transaction_def validate_amount_def process_mpesa_payment_def
      update_goal_def apply_update_def check_completed_def Let_def
      ledger0_def trip_goal_def mpesa_deposit_def no_change_def)

text \<open>
  Claim C4: when the gateway call that initiates a mobile-money payment raises, the pending
  transaction goes directly to \<open>failed\<close> and the goal's current amount is unchanged.

  For a request that passed validation and names a goal of the caller: the goals table is
  unchanged, the table of transactions gains exactly one row, which is the pending M-Pesa
  row of this request with its status set to \<open>failed\<close>, the caller gets the HTTP 400 error
  and no settlement task is queued.
\<close>

theorem initiate_mpesa_payment_gateway_error:
  assumes valid: "validate_phone_number (mp_phone_number payment_data) = Inr phone"
      and owned: "find (\<lambda>g. g_id g = mp_goal_id payment_data \<and> g_user_id g = current_user)
                    (goals d) = Some goal"
      and call: "initiate_mpesa_payment d current_user payment_data new_id utcnow (Inl e)
                    = (d', response, tasks)"
  shows "goals d' = goals d
       \<and> (\<exists>pending. t_status pending = T_PENDING \<and> t_id pending = new_id
             \<and> t_user_id pending = current_user \<and> t_goal_id pending = g_id goal
             \<and> t_method pending = MPESA \<and> t_amount pending = mp_amount payment_data
             \<and> transactions d' = transactions d @ [pending\<lparr>t_status := T_FAILED\<rparr>])
       \<and> response = Inl (HTTP_400_BAD_REQUEST (''Payment initiation failed: '' @ e))
       \<and> tasks = []"
proof -
  let ?pending = "new_mpesa_transaction current_user payment_data goal new_id utcnow"
  from owned have gid: "g_id goal = mp_goal_id payment_data"
    by (auto simp: find_Some_iff)
  from call valid owned
  have d': "d' = d\<lparr>transactions := transactions d @ [?pending\<lparr>t_status := T_FAILED\<rparr>]\<rparr>"
    and r: "response = Inl (HTTP_400_BAD_REQUEST (''Payment initiation failed: '' @ e))"
    and t: "tasks = []"
    by (simp_all add: initiate_mpesa_payment_def)
  have "t_status ?pending = T_PENDING \<and> t_id ?pending = new_id
      \<and> t_user_id ?pending = current_user \<and> t_goal_id ?pending = g_id goal
      \<and> t_method ?pending = MPESA \<and> t_amount ?pending = mp_amount payment_data"
    by (simp add: new_mpesa_transaction_def gid)
  with d' r t show ?thesis by auto
qed

theorem initiate_mpesa_payment_gateway_error_witness:
  "validate_phone_number (mp_phone_number pay500) = Inr ''254700000001''
   \<and> find (\<lambda>g. g_id g = mp_goal_id pay500 \<and> g_user_id g = 7) (goals ledger0) = Some trip_goal
   \<and> goals (fst (initiate_mpesa_payment ledger0 7 pay500 100 (mk_datetime 2024 3 15 12 0 5)
              (Inl ''ConnectTimeout''))) = [trip_goal]
   \<and> map t_status (transactions (fst (initiate_mpesa_payment ledger0 7 pay500 100
              (mk_datetime 2024 3 15 12 0 5) (Inl ''ConnectTimeout'')))) = [T_FAILED]
   \<and> snd (snd (initiate_mpesa_payment ledger0 7 pay500 100 (mk_datetime 2024 3 15 12 0 5)
              (Inl ''ConnectTimeout''))) = []"
proof -
  have valid: "validate_phone_number (mp_phone_number pay500) = Inr ''254700000001''"
    by (simp add: validate_phone_number_def pay500_def)
  have owned: "find (\<lambda>g. g_id g = mp_goal_id pay500 \<and> g_user_id g = 7) (goals ledger0)
                 = Some trip_goal"
    by (simp add: pay500_def ledger0_def trip_goal_def)
  obtain d' response tasks where
    call: "initiate_mpesa_payment ledger0 7 pay500 100 (mk_datetime 2024 3 15 12 0 5)
             (Inl ''ConnectTimeout'') = (d', response, tasks)"
    by (cases "initiate_mpesa_payment ledger0 7 pay500 100 (mk_datetime 2024 3 15 12 0 5)
             (Inl ''ConnectTimeout'')") auto
  from initiate_mpesa_payment_gateway_error [OF valid owned call]
  have "goals d' = goals ledger0"
    and "\<exists>p. transactions d' = transactions ledger0 @ [p\<lparr>t_status := T_FAILED\<rparr>]"
    and "tasks = []"
    by auto
  then have "goals d' = [trip_goal]" and "map t_status (transactions d') = [T_FAILED]"
    and "tasks = []"
    by (auto simp: ledger0_def)
  with valid owned call show ?thesis by simp
qed

section \<open>Example states are reachable\<close>

lemma funded_ledger_reached:
  "map_sum id (\<lambda>(d1, transaction, tasks).
       run_task d1 (hd tasks) (mk_datetime 2024 3 15 12 0 10) ''MP20240315150010'')
     (create_transaction ledger0 7 (mpesa_deposit 500) 100 (mk_datetime 2024 3 15 12 0 5))
   = Inr funded_ledger"
  by (simp add: create_transaction_def validate_amount_def process_mpesa_payment_def Let_def
      ledger0_def trip_goal_def mpesa_deposit_def funded_ledger_def funded_goal_def
      settled_deposit_def)

lemma zero_target_ledger_reached:
  "map_sum id fst (update_goal funded_ledger 7 10 (set_target_amount 0)
     (mk_datetime 2024 3 16 9 0 0)) = Inr zero_target_ledger"
  by (simp add: update_goal_def apply_update_def check_completed_def Let_def
      set_target_amount_def no_change_def zero_target_ledger_def zero_target_goal_def
      funded_ledger_def funded_goal_def ledger0_def trip_goal_def)

lemma tie_ledger_reached:
  "map_sum id fst (update_goal funded_ledger 7 10 (set_target_date (mk_datetime 2024 4 15 12 0 0))
     (mk_datetime 2024 3 16 8 0 0)) = Inr tie_ledger"
  by (simp add: update_goal_def apply_update_def check_completed_def Let_def
      set_target_date_def no_change_def tie_ledger_def tie_goal_def
      funded_ledger_def funded_goal_def ledger0_def trip_goal_def)

lemma bike_ledger_reached:
  "map_sum id (\<lambda>(d1, transaction, tasks).
       run_task d1 (hd tasks) (mk_datetime 2024 3 15 12 0 10) ''MP20240315150010'')
     (create_transaction bike_ledger0 7 bike_deposit_request 300 (mk_datetime 2024 3 15 12 0 5))
   = Inr bike_ledger"
  by (simp add: create_transaction_def validate_amount_def process_mpesa_payment_def Let_def
      bike_ledger0_def ledger0_def bike_goal0_def bike_deposit_request_def bike_ledger_def
      bike_goal_def bike_deposit_def)

section \<open>Category breakdown\<close>

text \<open>
  Claim C5: the category breakdown groups the user's goals by category, sums the current and
  the target amounts, and reports \<open>current / target * 100\<close>, except that a category whose
  summed target is 0 gets percentage 0; it never divides by zero and never raises.

  The code replaces a zero divisor by 1 (\<^verbatim>\<open>float(cat.total_target or 1)\<close>, line 80), so a
  category with summed target 0 gets \<open>current * 100\<close>. In the example the owner of the funded
  goal (500 saved) has set its target to 0: the category row of the savings overview
  reports target 0 and percentage 50000, while the overall progress of the same response
  (line 99, \<^verbatim>\<open>if total_target > 0 else 0\<close>), over the same single goal, is 0.
\<close>

theorem category_breakdown_zero_target_percentage:
  "map cb_category (category_breakdown zero_target_ledger 7) = [VACATION]
   \<and> map cb_current_amount (category_breakdown zero_target_ledger 7) = [500]
   \<and> map cb_target_amount (category_breakdown zero_target_ledger 7) = [0]
   \<and> map cb_percentage (category_breakdown zero_target_ledger 7) = [50000]
   \<and> sa_category_breakdown (get_savings_overview zero_target_ledger 7 (mk_datetime 2024 3 16 9 0 0))
        = category_breakdown zero_target_ledger 7
   \<and> sa_total_savings (get_savings_overview zero_target_ledger 7 (mk_datetime 2024 3 16 9 0 0))
        = 500
   \<and> sa_total_target (get_savings_overview zero_target_ledger 7 (mk_datetime 2024 3 16 9 0 0))
        = 0
   \<and> sa_overall_progress (get_savings_overview zero_target_ledger 7 (mk_datetime 2024 3 16 9 0 0))
        = 0"
proof -
  have goals: "goals zero_target_ledger = [zero_target_goal]"
    by (simp add: zero_target_ledger_def funded_ledger_def ledger0_def)
  have fields: "g_user_id zero_target_goal = 7" "g_category zero_target_goal = VACATION"
    "g_current_amount zero_target_goal = 500" "g_target_amount zero_target_goal = 0"
    by (simp_all add: zero_target_goal_def funded_goal_def trip_goal_def)
  have rows: "map cb_category (category_breakdown zero_target_ledger 7) = [VACATION]
     \<and> map cb_current_amount (category_breakdown zero_target_ledger 7) = [500]
     \<and> map cb_target_amount (category_breakdown zero_target_ledger 7) = [0]
     \<and> map cb_percentage (category_breakdown zero_target_ledger 7) = [50000]"
    by (simp add: category_breakdown_def category_data_def Let_def goals fields)
  have overview: "sa_category_breakdown
        (get_savings_overview zero_target_ledger 7 (mk_datetime 2024 3 16 9 0 0))
        = category_breakdown zero_target_ledger 7
     \<and> sa_total_savings (get_savings_overview zero_target_ledger 7 (mk_datetime 2024 3 16 9 0 0))
        = 500
     \<and> sa_total_target (get_savings_overview zero_target_ledger 7 (mk_datetime 2024 3 16 9 0 0))
        = 0
     \<and> sa_overall_progress
        (get_savings_overview zero_target_ledger 7 (mk_datetime 2024 3 16 9 0 0)) = 0"
    by (simp add: get_savings_overview_def Let_def goals fields)
  from rows overview show ?thesis
    by simp
qed

section \<open>Properties of the double-precision model\<close>

text \<open>An integer below \<open>2\<^sup>5\<^sup>3\<close> is a double, and rounding keeps the sign.\<close>

lemma round_half_even_of_int: "round_half_even (of_int m) = m"
  by (simp add: round_half_even_def)

lemma ilog2_of_int_le:
  assumes "0 < n" and "n < 2 ^ 53"
  shows "ilog2 (of_int n) \<le> 52"
proof -
  from assms have "bitlen n \<le> 53"
    by (simp add: bitlen_le_iff_power)
  moreover have "bitlen 1 = 1"
    by (simp add: bitlen_alt_def)
  moreover from assms(1) have "\<bar>of_int n :: rat\<bar> = of_int n"
    by simp
  ultimately show ?thesis
    by (simp add: ilog2_def quotient_of_int Let_def)
qed

lemma float_of_of_int:
  assumes "0 < n" and "n < 2 ^ 53"
  shows "float_of (of_int n) = of_int n"
proof -
  define k where "k = nat (52 - ilog2 (of_int n))"
  from ilog2_of_int_le [OF assms] have e: "ilog2 (of_int n) - 52 = - int k"
    by (simp add: k_def)
  have "(of_int n :: rat) / 2 powi (- int k) = of_int (n * 2 ^ k)"
    by (simp add: power_int_minus divide_inverse)
  then have "round_half_even (of_int n / 2 powi (- int k)) = n * 2 ^ k"
    by (simp only: round_half_even_of_int)
  with assms(1) show ?thesis
    by (simp add: float_of_def e Let_def power_int_minus)
qed

section \<open>Evaluation of the example states\<close>

lemmas calendar_defs =
  mk_datetime_def ymd2ord_def days_before_year_def days_before_month_def is_leap_def
  day_us_def days_of_def timedelta_days_def

lemma instants:
  "mk_datetime 2024 3 15 12 0 0 = 63846100800000000"
  "mk_datetime 2024 3 15 12 0 5 = 63846100805000000"
  "mk_datetime 2024 3 15 12 0 10 = 63846100810000000"
  "mk_datetime 2024 3 16 9 0 0 = 63846176400000000"
  "mk_datetime 2024 4 14 12 0 0 = 63848692800000000"
  "mk_datetime 2024 4 15 9 0 0 = 63848768400000000"
  "mk_datetime 2024 4 20 12 0 0 = 63849211200000000"
  "mk_datetime 2024 5 20 12 0 0 = 63851803200000000"
  "mk_datetime 2024 9 12 12 0 0 = 63861739200000000"
  "mk_datetime 2024 3 1 18 0 0 = 63844912800000000"
  "mk_datetime 2024 3 1 18 0 5 = 63844912805000000"
  by (simp_all add: calendar_defs)

lemma funded_goal_fields:
  "g_id funded_goal = 10" "g_user_id funded_goal = 7" "g_title funded_goal = ''Trip''"
  "g_target_amount funded_goal = 1000" "g_current_amount funded_goal = 500"
  "g_target_date funded_goal = mk_datetime 2024 4 14 12 0 0"
  "g_category funded_goal = VACATION" "g_status funded_goal = Some G_ACTIVE"
  "g_completed_at funded_goal = None"
  by (simp_all add: funded_goal_def trip_goal_def)

lemma tie_goal_fields:
  "g_id tie_goal = 10" "g_user_id tie_goal = 7" "g_title tie_goal = ''Trip''"
  "g_target_amount tie_goal = 1000" "g_current_amount tie_goal = 500"
  "g_target_date tie_goal = mk_datetime 2024 4 15 12 0 0"
  by (simp_all add: tie_goal_def funded_goal_def trip_goal_def)

lemma bike_goal_fields:
  "g_id bike_goal = 12" "g_user_id bike_goal = 7" "g_title bike_goal = ''Bike''"
  "g_target_amount bike_goal = 1004 / 5" "g_current_amount bike_goal = 753 / 5"
  "g_target_date bike_goal = mk_datetime 2024 3 26 12 0 0"
  by (simp_all add: bike_goal_def bike_goal0_def)

lemma settled_deposit_fields:
  "t_id settled_deposit = 100" "t_user_id settled_deposit = 7" "t_goal_id settled_deposit = 10"
  "t_amount settled_deposit = 500" "t_transaction_type settled_deposit = DEPOSIT"
  "t_status settled_deposit = T_COMPLETED"
  "t_created_at settled_deposit = mk_datetime 2024 3 15 12 0 5"
  by (simp_all add: settled_deposit_def)

lemma bike_deposit_fields:
  "t_id bike_deposit = 300" "t_user_id bike_deposit = 7" "t_goal_id bike_deposit = 12"
  "t_amount bike_deposit = 753 / 5" "t_transaction_type bike_deposit = DEPOSIT"
  "t_status bike_deposit = T_COMPLETED"
  "t_created_at bike_deposit = mk_datetime 2024 3 15 12 0 5"
  by (simp_all add: bike_deposit_def)

lemma example_tables:
  "goals funded_ledger = [funded_goal]" "transactions funded_ledger = [settled_deposit]"
  "goals tie_ledger = [tie_goal]" "transactions tie_ledger = [settled_deposit]"
  "goals bike_ledger = [bike_goal]" "transactions bike_ledger = [bike_deposit]"
  by (simp_all add: funded_ledger_def tie_ledger_def bike_ledger_def bike_ledger0_def
      ledger0_def)

text \<open>What \<open>goal_progress\<close> reports, and when it returns.\<close>

lemma goal_progress_fields:
  assumes "goal_progress d now goal = Inr a"
  shows "gp_days_remaining a = days_remaining goal now"
    and "gp_daily_required_savings a = daily_required goal now"
    and "gp_daily_average_savings a = daily_average d goal now"
    and "gp_is_on_track a
           = (if daily_required goal now > 0
              then daily_average d goal now \<ge> daily_required goal now else True)"
proof -
  from assms obtain p where p: "predicted_completion d now goal = Inr p"
    by (cases "predicted_completion d now goal") (simp_all add: goal_progress_def)
  from assms p have nz: "g_target_amount goal \<noteq> 0"
    by (cases "g_target_amount goal = 0") (simp_all add: goal_progress_def)
  from assms have a: "Inr a = goal_progress d now goal"
    by simp
  show "gp_days_remaining a = days_remaining goal now"
    and "gp_daily_required_savings a = daily_required goal now"
    and "gp_daily_average_savings a = daily_average d goal now"
    and "gp_is_on_track a
           = (if daily_required goal now > 0
              then daily_average d goal now \<ge> daily_required goal now else True)"
    using a p nz by (simp_all add: goal_progress_def)
qed

lemma goal_progress_returns:
  assumes "predicted_completion d now goal = Inr p" and "g_target_amount goal \<noteq> 0"
  shows "\<exists>a. goal_progress d now goal = Inr a"
  using assms by (simp add: goal_progress_def)

lemma get_goal_progress_analytics_single:
  assumes "filter (\<lambda>g. g_user_id g = u) (goals d) = [goal]"
      and "goal_progress d now goal = Inr a"
  shows "get_goal_progress_analytics d u now = Inr [a]"
  using assms by (simp add: get_goal_progress_analytics_def)

lemma predicted_completion_velocity:
  assumes "daily_average d goal now = v" and "0 < v"
      and "timedelta_of_float_days
             (fdiv (float_of (g_target_amount goal - g_current_amount goal)) v) = Inr delta"
      and "add_timedelta now delta = Inr p"
  shows "predicted_completion d now goal = Inr p"
  using assms by (simp add: predicted_completion_def)

lemma predicted_completion_no_velocity:
  assumes "daily_average d goal now = 0"
  shows "predicted_completion d now goal = Inr (g_target_date goal)"
  using assms by (simp add: predicted_completion_def)

text \<open>The funded goal on 2024-04-20 at noon, six days after its target date: the deposit
  is 36 days old.\<close>

lemma funded_overdue:
  "days_remaining funded_goal (mk_datetime 2024 4 20 12 0 0) = - 6"
  "daily_required funded_goal (mk_datetime 2024 4 20 12 0 0) = 0"
  "daily_average funded_ledger funded_goal (mk_datetime 2024 4 20 12 0 0) = 0"
  by code_simp+

lemma goal_progress_funded_overdue:
  "\<exists>a. goal_progress funded_ledger (mk_datetime 2024 4 20 12 0 0) funded_goal = Inr a"
  by (rule goal_progress_returns [OF predicted_completion_no_velocity [OF funded_overdue(3)]])
     (simp add: funded_goal_fields)

text \<open>The funded goal on 2024-03-16 at 09:00, 29 whole days before its target date.\<close>

lemma funded_early:
  "days_remaining funded_goal (mk_datetime 2024 3 16 9 0 0) = 29"
  "daily_average funded_ledger funded_goal (mk_datetime 2024 3 16 9 0 0)
     = 4691249611844267 / 281474976710656"
  "timedelta_of_float_days
     (fdiv (float_of (g_target_amount funded_goal - g_current_amount funded_goal))
        (4691249611844267 / 281474976710656)) = Inr (30 * day_us)"
  "add_timedelta (mk_datetime 2024 3 16 9 0 0) (30 * day_us) = Inr (mk_datetime 2024 4 15 9 0 0)"
  by code_simp+

lemma goal_progress_funded_early:
  "\<exists>a. goal_progress funded_ledger (mk_datetime 2024 3 16 9 0 0) funded_goal = Inr a"
  by (rule goal_progress_returns
        [OF predicted_completion_velocity [OF funded_early(2) _ funded_early(3,4)]])
     (simp_all add: funded_goal_fields)

text \<open>The goal due on 2024-04-15 at noon, on 2024-03-16 at 09:00: 30 whole days remain, 500
  is missing and 500 was deposited in the last 30 days. The required rate and the velocity
  are the same double, the quotient of 500 and 30.\<close>

lemma tie_early:
  "days_remaining tie_goal (mk_datetime 2024 3 16 9 0 0) = 30"
  "daily_required tie_goal (mk_datetime 2024 3 16 9 0 0) = 4691249611844267 / 281474976710656"
  "daily_average tie_ledger tie_goal (mk_datetime 2024 3 16 9 0 0)
     = 4691249611844267 / 281474976710656"
  "timedelta_of_float_days
     (fdiv (float_of (g_target_amount tie_goal - g_current_amount tie_goal))
        (4691249611844267 / 281474976710656)) = Inr (30 * day_us)"
  "add_timedelta (mk_datetime 2024 3 16 9 0 0) (30 * day_us) = Inr (mk_datetime 2024 4 15 9 0 0)"
  by code_simp+

lemma goal_progress_tie:
  "\<exists>a. goal_progress tie_ledger (mk_datetime 2024 3 16 9 0 0) tie_goal = Inr a"
  by (rule goal_progress_returns
        [OF predicted_completion_velocity [OF tie_early(3) _ tie_early(4,5)]])
     (simp_all add: tie_goal_fields)

text \<open>The goal of 200.80 on 2024-03-16 at 09:00: ten whole days remain. The required rate
  is the double quotient of 50.20 and 10, the velocity the double quotient of 150.60 and
  30.\<close>

lemma bike_early:
  "days_remaining bike_goal (mk_datetime 2024 3 16 9 0 0) = 10"
  "daily_required bike_goal (mk_datetime 2024 3 16 9 0 0)
     = 5652017532349973 / 1125899906842624"
  "daily_average bike_ledger bike_goal (mk_datetime 2024 3 16 9 0 0)
     = 1413004383087493 / 281474976710656"
  "timedelta_of_float_days
     (fdiv (float_of (g_target_amount bike_goal - g_current_amount bike_goal))
        (1413004383087493 / 281474976710656)) = Inr (10 * day_us)"
  "add_timedelta (mk_datetime 2024 3 16 9 0 0) (10 * day_us) = Inr (mk_datetime 2024 3 26 9 0 0)"
  by code_simp+

lemma goal_progress_bike:
  "\<exists>a. goal_progress bike_ledger (mk_datetime 2024 3 16 9 0 0) bike_goal = Inr a"
  by (rule goal_progress_returns
        [OF predicted_completion_velocity [OF bike_early(3) _ bike_early(4,5)]])
     (simp_all add: bike_goal_fields)

section \<open>Daily required rate\<close>

text \<open>
  Claim C6: the daily required rate is \<open>(target - current) / max(days_remaining, 1)\<close> with
  \<open>days_remaining = max(target_date - now, 0)\<close>; with no day remaining it is the full remaining
  amount (0 only when nothing remains); for target 1000, current 500 and 29 days remaining
  it is 500/29.

  The analytics guard the quotient with \<^verbatim>\<open>if days_remaining > 0 else 0\<close> (line 123 of
  \<^verbatim>\<open>api/analytics.py\<close>, and line 180 of \<^verbatim>\<open>api/goals.py\<close>). For the funded goal (500 of 1000)
  six days after its target date the user-level analytics report \<open>- 6\<close> days remaining and
  a required rate of 0, where the claim's formula gives 0 days and 500.
\<close>

theorem daily_required_overdue_counterexample:
  "map_sum id (map gp_days_remaining)
      (get_goal_progress_analytics funded_ledger 7 (mk_datetime 2024 4 20 12 0 0)) = Inr [- 6]
   \<and> map_sum id (map gp_daily_required_savings)
      (get_goal_progress_analytics funded_ledger 7 (mk_datetime 2024 4 20 12 0 0)) = Inr [0]
   \<and> spec_days_remaining funded_goal (mk_datetime 2024 4 20 12 0 0) = 0
   \<and> spec_daily_required_rate funded_goal (mk_datetime 2024 4 20 12 0 0) = 500"
proof -
  let ?now = "mk_datetime 2024 4 20 12 0 0"
  have spec: "spec_days_remaining funded_goal ?now = 0"
    "spec_daily_required_rate funded_goal ?now = 500"
    by code_simp+
  from goal_progress_funded_overdue obtain a where
    a: "goal_progress funded_ledger ?now funded_goal = Inr a" ..
  have "get_goal_progress_analytics funded_ledger 7 ?now = Inr [a]"
    by (rule get_goal_progress_analytics_single [OF _ a])
       (simp add: example_tables funded_goal_fields)
  with goal_progress_fields(1,2) [OF a] spec show ?thesis
    by (simp add: funded_overdue)
qed

text \<open>
  Claim C6 as amended, for the user-level analytics (\<open>get_goal_progress_analytics\<close>): the
  days remaining are the whole days from now to the target date (rounded down, negative
  once the date has passed); the required rate is 0 when no whole day remains, whatever
  amount is missing, and otherwise the quotient of the missing amount and the days
  remaining, taken in double precision. When the missing amount is itself a double, this is
  the double nearest to the spec's \<open>(target - current) / max(days_remaining, 1)\<close>. For target
  1000, current 500 and 29 days remaining it is the double nearest to 500/29.
\<close>

theorem daily_required_amended:
  assumes "goal_progress d now goal = Inr a"
  shows "gp_days_remaining a = days_of (g_target_date goal - now)
       \<and> gp_daily_required_savings a
           = (if 0 < days_of (g_target_date goal - now)
              then fdiv (float_of (g_target_amount goal - g_current_amount goal))
                     (float_of (of_int (days_of (g_target_date goal - now))))
              else 0)
       \<and> (0 < days_of (g_target_date goal - now) \<and> days_of (g_target_date goal - now) < 2 ^ 53
            \<and> float_of (g_target_amount goal - g_current_amount goal)
                = g_target_amount goal - g_current_amount goal
          \<longrightarrow> gp_daily_required_savings a = float_of (spec_daily_required_rate goal now))"
proof -
  let ?days = "days_of (g_target_date goal - now)"
  let ?remaining = "g_target_amount goal - g_current_amount goal"
  have days: "gp_days_remaining a = ?days"
    using goal_progress_fields(1) [OF assms] by (simp add: days_remaining_def)
  have rate: "gp_daily_required_savings a
      = (if 0 < ?days then fdiv (float_of ?remaining) (float_of (of_int ?days)) else 0)"
  proof (cases "0 < ?days")
    case True
    then have "max ?days 1 = ?days"
      by simp
    with True goal_progress_fields(2) [OF assms] show ?thesis
      by (simp add: daily_required_def days_remaining_def Let_def)
  next
    case False
    with goal_progress_fields(2) [OF assms] show ?thesis
      by (simp add: daily_required_def days_remaining_def Let_def)
  qed
  have nearest: "gp_daily_required_savings a = float_of (spec_daily_required_rate goal now)"
    if "0 < ?days" and "?days < 2 ^ 53" and "float_of ?remaining = ?remaining"
  proof -
    from that(1,2) have "float_of (of_int ?days) = of_int ?days"
      by (rule float_of_of_int)
    with that(1,3) rate have "gp_daily_required_savings a = float_of (?remaining / of_int ?days)"
      by (simp add: fdiv_def)
    moreover from that(1) have "spec_daily_required_rate goal now = ?remaining / of_int ?days"
      by (simp add: spec_daily_required_rate_def spec_days_remaining_def max_def)
    ultimately show ?thesis
      by simp
  qed
  from days rate nearest show ?thesis
    by simp
qed

theorem daily_required_amended_witness:
  "days_of (g_target_date funded_goal - mk_datetime 2024 3 16 9 0 0) = 29
   \<and> float_of (g_target_amount funded_goal - g_current_amount funded_goal) = 500
   \<and> spec_daily_required_rate funded_goal (mk_datetime 2024 3 16 9 0 0) = 500 / 29
   \<and> map_sum id (map gp_daily_required_savings)
        (get_goal_progress_analytics funded_ledger 7 (mk_datetime 2024 3 16 9 0 0))
        = Inr [float_of (500 / 29)]
   \<and> float_of (500 / 29) = 4853016839838897 / 281474976710656"
proof -
  let ?now = "mk_datetime 2024 3 16 9 0 0"
  have days: "days_of (g_target_date funded_goal - ?now) = 29"
    by code_simp
  have remaining: "g_target_amount funded_goal - g_current_amount funded_goal = 500"
    by (simp add: funded_goal_fields)
  have double: "float_of 500 = 500"
    by code_simp
  have spec: "spec_daily_required_rate funded_goal ?now = 500 / 29"
    by code_simp
  have nearest: "float_of (500 / 29) = 4853016839838897 / 281474976710656"
    by code_simp
  from goal_progress_funded_early obtain a where
    a: "goal_progress funded_ledger ?now funded_goal = Inr a" ..
  have list: "get_goal_progress_analytics funded_ledger 7 ?now = Inr [a]"
    by (rule get_goal_progress_analytics_single [OF _ a])
       (simp add: example_tables funded_goal_fields)
  from daily_required_amended [OF a]
  have "gp_daily_required_savings a = float_of (500 / 29)"
    by (simp add: days remaining double spec)
  with days remaining double spec nearest list show ?thesis
    by simp
qed

section \<open>On-track status\<close>

text \<open>
  Claim C7: a goal is on track exactly when its 30-day velocity is at least the daily
  required rate, a tie counting as on track, and this one definition governs both the
  goal-level and the user-level computation.

  The user-level analytics compare \<^verbatim>\<open>daily_average >= daily_required\<close> (line 144), where both
  sides are quotients taken in double precision (lines 123 and 134). In the example the
  velocity and the required rate are both exactly 5.02 (150.60 / 30 and 50.20 / 10), so the
  goal is on track by the claim; the two doubles differ in the last place
  (5.02 and 5.0200000000000005) and the goal is reported as not on track. In the tie of
  500 / 30 with 500 / 30 the two doubles are equal and the goal is reported on track. The
  goal-level analytics raise \<^verbatim>\<open>NameError\<close> before they reach their on-track rule.
\<close>

theorem is_on_track_tie_reported_off_track:
  "spec_recent_velocity bike_ledger bike_goal (mk_datetime 2024 3 16 9 0 0) 30 = 251 / 50
   \<and> spec_daily_required_rate bike_goal (mk_datetime 2024 3 16 9 0 0) = 251 / 50
   \<and> spec_is_on_track (spec_recent_velocity bike_ledger bike_goal (mk_datetime 2024 3 16 9 0 0) 30)
        (spec_daily_required_rate bike_goal (mk_datetime 2024 3 16 9 0 0))
   \<and> map_sum id (map gp_daily_average_savings)
        (get_goal_progress_analytics bike_ledger 7 (mk_datetime 2024 3 16 9 0 0))
        = Inr [1413004383087493 / 281474976710656]
   \<and> map_sum id (map gp_daily_required_savings)
        (get_goal_progress_analytics bike_ledger 7 (mk_datetime 2024 3 16 9 0 0))
        = Inr [5652017532349973 / 1125899906842624]
   \<and> map_sum id (map gp_is_on_track)
        (get_goal_progress_analytics bike_ledger 7 (mk_datetime 2024 3 16 9 0 0))
        = Inr [False]
   \<and> map_sum id (map gp_is_on_track)
        (get_goal_progress_analytics tie_ledger 7 (mk_datetime 2024 3 16 9 0 0))
        = Inr [True]
   \<and> get_goal_analytics bike_ledger 7 12 (mk_datetime 2024 3 16 9 0 0) = Inl NameError"
proof -
  let ?now = "mk_datetime 2024 3 16 9 0 0"
  have velocity: "spec_recent_velocity bike_ledger bike_goal ?now 30 = 251 / 50"
    by code_simp
  have required: "spec_daily_required_rate bike_goal ?now = 251 / 50"
    by code_simp
  have spec: "spec_is_on_track (spec_recent_velocity bike_ledger bike_goal ?now 30)
      (spec_daily_required_rate bike_goal ?now)"
    by (simp add: velocity required spec_is_on_track_def)
  from goal_progress_bike obtain a where
    a: "goal_progress bike_ledger ?now bike_goal = Inr a" ..
  have bike: "get_goal_progress_analytics bike_ledger 7 ?now = Inr [a]"
    by (rule get_goal_progress_analytics_single [OF _ a])
       (simp add: example_tables bike_goal_fields)
  have reported: "gp_daily_average_savings a = 1413004383087493 / 281474976710656"
    "gp_daily_required_savings a = 5652017532349973 / 1125899906842624"
    "\<not> gp_is_on_track a"
    using goal_progress_fields(2,3,4) [OF a] by (simp_all add: bike_early)
  from goal_progress_tie obtain b where
    b: "goal_progress tie_ledger ?now tie_goal = Inr b" ..
  have tie: "get_goal_progress_analytics tie_ledger 7 ?now = Inr [b]"
    by (rule get_goal_progress_analytics_single [OF _ b])
       (simp add: example_tables tie_goal_fields)
  have on_track: "gp_is_on_track b"
    using goal_progress_fields(4) [OF b] by (simp add: tie_early)
  have goal_level: "get_goal_analytics bike_ledger 7 12 ?now = Inl NameError"
    by (simp add: get_goal_analytics_def example_tables bike_goal_fields)
  from velocity required spec bike reported tie on_track goal_level show ?thesis
    by simp
qed

section \<open>Monthly trend series\<close>

lemma school_instants:
  "mk_datetime 2024 3 1 18 0 0 = 63844912800000000"
  "mk_datetime 2024 3 2 12 0 0 = 63844977600000000"
  "mk_datetime 2024 3 1 12 0 0 = 63844891200000000"
  "mk_datetime 2024 1 31 12 0 0 = 63842299200000000"
  "mk_datetime 2024 1 1 12 0 0 = 63839707200000000"
  "mk_datetime 2023 12 2 12 0 0 = 63837115200000000"
  "mk_datetime 2023 11 2 12 0 0 = 63834523200000000"
  "mk_datetime 2023 10 3 12 0 0 = 63831931200000000"
  "mk_datetime 2023 9 3 12 0 0 = 63829339200000000"
  "mk_datetime 2023 8 4 12 0 0 = 63826747200000000"
  "mk_datetime 2023 7 5 12 0 0 = 63824155200000000"
  "mk_datetime 2023 6 5 12 0 0 = 63821563200000000"
  "mk_datetime 2023 5 6 12 0 0 = 63818971200000000"
  "mk_datetime 2023 4 6 12 0 0 = 63816379200000000"
  by (simp_all add: calendar_defs)

lemma school_tables:
  "transactions school_ledger = [march_deposit]"
  by (simp add: school_ledger_def ledger0_def)

lemma march_deposit_fields:
  "t_user_id march_deposit = 7" "t_amount march_deposit = 100"
  "t_transaction_type march_deposit = DEPOSIT" "t_status march_deposit = T_COMPLETED"
  "t_created_at march_deposit = mk_datetime 2024 3 1 18 0 0"
  by (simp_all add: march_deposit_def)

lemma replace_day1_mid_march:
  "replace_day1 (mk_datetime 2024 3 15 12 0 0) = mk_datetime 2024 3 1 12 0 0"
  by (simp add: replace_day1_def dt_day_def ord2ymd_def days_before_month_def
      days_in_month_def Let_def instants school_instants day_us_def)

text \<open>The twelve window starts on 2024-03-15 at noon: thirty days apart, at the time of day
  of the request.\<close>

lemma month_start_mid_march:
  "month_start (mk_datetime 2024 3 15 12 0 0) 0 = mk_datetime 2024 3 1 12 0 0"
  "month_start (mk_datetime 2024 3 15 12 0 0) 1 = mk_datetime 2024 1 31 12 0 0"
  "month_start (mk_datetime 2024 3 15 12 0 0) 2 = mk_datetime 2024 1 1 12 0 0"
  "month_start (mk_datetime 2024 3 15 12 0 0) 3 = mk_datetime 2023 12 2 12 0 0"
  "month_start (mk_datetime 2024 3 15 12 0 0) 4 = mk_datetime 2023 11 2 12 0 0"
  "month_start (mk_datetime 2024 3 15 12 0 0) 5 = mk_datetime 2023 10 3 12 0 0"
  "month_start (mk_datetime 2024 3 15 12 0 0) 6 = mk_datetime 2023 9 3 12 0 0"
  "month_start (mk_datetime 2024 3 15 12 0 0) 7 = mk_datetime 2023 8 4 12 0 0"
  "month_start (mk_datetime 2024 3 15 12 0 0) 8 = mk_datetime 2023 7 5 12 0 0"
  "month_start (mk_datetime 2024 3 15 12 0 0) 9 = mk_datetime 2023 6 5 12 0 0"
  "month_start (mk_datetime 2024 3 15 12 0 0) 10 = mk_datetime 2023 5 6 12 0 0"
  "month_start (mk_datetime 2024 3 15 12 0 0) 11 = mk_datetime 2023 4 6 12 0 0"
  by (simp_all add: month_start_def replace_day1_mid_march timedelta_days_def day_us_def
      school_instants)

lemma month_labels:
  "strftime_Y_m (mk_datetime 2024 3 1 12 0 0) = (2024, 3)"
  "strftime_Y_m (mk_datetime 2024 1 31 12 0 0) = (2024, 1)"
  "strftime_Y_m (mk_datetime 2024 1 1 12 0 0) = (2024, 1)"
  "strftime_Y_m (mk_datetime 2023 12 2 12 0 0) = (2023, 12)"
  "strftime_Y_m (mk_datetime 2023 11 2 12 0 0) = (2023, 11)"
  "strftime_Y_m (mk_datetime 2023 10 3 12 0 0) = (2023, 10)"
  "strftime_Y_m (mk_datetime 2023 9 3 12 0 0) = (2023, 9)"
  "strftime_Y_m (mk_datetime 2023 8 4 12 0 0) = (2023, 8)"
  "strftime_Y_m (mk_datetime 2023 7 5 12 0 0) = (2023, 7)"
  "strftime_Y_m (mk_datetime 2023 6 5 12 0 0) = (2023, 6)"
  "strftime_Y_m (mk_datetime 2023 5 6 12 0 0) = (2023, 5)"
  "strftime_Y_m (mk_datetime 2023 4 6 12 0 0) = (2023, 4)"
  by (simp_all add: strftime_Y_m_def dt_year_def dt_month_def ord2ymd_def
      days_before_month_def days_in_month_def Let_def school_instants day_us_def)

lemma monthly_deposits_mid_march:
  "monthly_deposits school_ledger 7 (mk_datetime 2024 3 15 12 0 0) 0 = 100"
  "monthly_deposits school_ledger 7 (mk_datetime 2024 3 15 12 0 0) 1 = 100"
  "monthly_deposits school_ledger 7 (mk_datetime 2024 3 15 12 0 0) 2 = 0"
  "monthly_deposits school_ledger 7 (mk_datetime 2024 3 15 12 0 0) 3 = 0"
  "monthly_deposits school_ledger 7 (mk_datetime 2024 3 15 12 0 0) 4 = 0"
  "monthly_deposits school_ledger 7 (mk_datetime 2024 3 15 12 0 0) 5 = 0"
  "monthly_deposits school_ledger 7 (mk_datetime 2024 3 15 12 0 0) 6 = 0"
  "monthly_deposits school_ledger 7 (mk_datetime 2024 3 15 12 0 0) 7 = 0"
  "monthly_deposits school_ledger 7 (mk_datetime 2024 3 15 12 0 0) 8 = 0"
  "monthly_deposits school_ledger 7 (mk_datetime 2024 3 15 12 0 0) 9 = 0"
  "monthly_deposits school_ledger 7 (mk_datetime 2024 3 15 12 0 0) 10 = 0"
  "monthly_deposits school_ledger 7 (mk_datetime 2024 3 15 12 0 0) 11 = 0"
  by (simp_all add: monthly_deposits_def month_end_def month_start_mid_march school_tables
      march_deposit_fields school_instants timedelta_days_def day_us_def del: One_nat_def)

lemma upt_12: "[0..<12] = [0, 1, 2, 3, 4, 5, 6, 7, 8, 9, 10, 11]"
  by code_simp

text \<open>
  Claim C8: the monthly trend series has one entry for each of the trailing 12 calendar
  months, oldest first; an entry is the sum of the completed deposits created within that
  calendar month, the months being half-open intervals that do not overlap; a month
  without activity reports 0.

  The code labels each entry with the year and month of its window start
  (\<^verbatim>\<open>strftime("%Y-%m")\<close>), but takes the windows 30 days apart and 31 days long, starting at the
  first of the current month at the time of day of the request. So consecutive windows
  overlap by a day and drift away from the calendar months. Evaluated on 2024-03-15 at
  noon for a user whose only completed deposit (100) was created on 2024-03-01 at 18:00:
  the window labelled 2024-03 starts on 2024-03-01 at 12:00 and the one before it runs
  from 2024-01-31 12:00 to 2024-03-02 12:00, so the deposit is counted in both; the second
  of them is labelled 2024-01, as is the window before it, and no entry is labelled
  2024-02.
\<close>

theorem monthly_trends_windows_overlap:
  "map mt_month (monthly_trends school_ledger 7 (mk_datetime 2024 3 15 12 0 0))
     = [(2023, 4), (2023, 5), (2023, 6), (2023, 7), (2023, 8), (2023, 9), (2023, 10), (2023, 11), (2023, 12), (2024, 1), (2024, 1), (2024, 3)]
   \<and> map mt_amount (monthly_trends school_ledger 7 (mk_datetime 2024 3 15 12 0 0))
     = [0, 0, 0, 0, 0, 0, 0, 0, 0, 0, 100, 100]
   \<and> map t_amount (transactions school_ledger) = [100]
   \<and> map t_created_at (transactions school_ledger) = [mk_datetime 2024 3 1 18 0 0]
   \<and> month_start (mk_datetime 2024 3 15 12 0 0) 1 = mk_datetime 2024 1 31 12 0 0
   \<and> month_end (mk_datetime 2024 3 15 12 0 0) 1 = mk_datetime 2024 3 2 12 0 0
   \<and> month_start (mk_datetime 2024 3 15 12 0 0) 0 = mk_datetime 2024 3 1 12 0 0"
proof -
  have "month_end (mk_datetime 2024 3 15 12 0 0) 1 = mk_datetime 2024 3 2 12 0 0"
    by (simp add: month_end_def month_start_mid_march school_instants timedelta_days_def
        day_us_def del: One_nat_def)
  then show ?thesis
    by (simp add: monthly_trends_def upt_12 month_start_mid_march month_labels
        monthly_deposits_mid_march school_tables march_deposit_fields del: One_nat_def)
qed

end
